theory Spec2Isabelle
  imports Main
begin

section \<open>JavaScript values used by the template manager\<close>

text \<open>
  Numbers. A finite JavaScript number is modelled by an integer (the coordinates, sort
  identifiers and pixel counts of the template manager are integers); the three special
  values of the number type are kept, because \<open>isNaN\<close>, \<open>isFinite\<close>, \<open>||\<close> and
  \<open>>=\<close> in the source tell them apart.
\<close>

datatype jsnum = Num int | NaN | PosInf | NegInf

text \<open>
  What the source throws. \<open>Error\<close> carries the message of \<open>throw new Error(...)\<close>;
  \<open>TypeError\<close> is a property read or call on \<open>undefined\<close>/\<open>null\<close>;
  \<open>DecodeError\<close> is a rejected \<open>createImageBitmap\<close> or a failed \<open>atob\<close>;
  \<open>IndexSizeError\<close> is \<open>getImageData\<close> on an empty rectangle.
\<close>

datatype error = Error string | TypeError | DecodeError | IndexSizeError

fun isNaN :: "jsnum \<Rightarrow> bool" where
  "isNaN NaN = True"
| "isNaN _ = False"

fun isFinite :: "jsnum \<Rightarrow> bool" where
  "isFinite (Num _) = True"
| "isFinite _ = False"

text \<open>Truthiness of a number: \<open>0\<close> and \<open>NaN\<close> are falsy.\<close>

fun truthy_num :: "jsnum \<Rightarrow> bool" where
  "truthy_num (Num i) = (i \<noteq> 0)"
| "truthy_num NaN = False"
| "truthy_num _ = True"

text \<open>\<open>a + b\<close> on numbers.\<close>

fun js_add :: "jsnum \<Rightarrow> jsnum \<Rightarrow> jsnum" where
  "js_add (Num a) (Num b) = Num (a + b)"
| "js_add NaN _ = NaN"
| "js_add _ NaN = NaN"
| "js_add PosInf NegInf = NaN"
| "js_add NegInf PosInf = NaN"
| "js_add PosInf _ = PosInf"
| "js_add _ PosInf = PosInf"
| "js_add NegInf _ = NegInf"
| "js_add _ NegInf = NegInf"

text \<open>\<open>a * k\<close> for a non-negative integer \<open>k\<close> (the draw multiplier).\<close>

fun js_scale :: "jsnum \<Rightarrow> nat \<Rightarrow> jsnum" where
  "js_scale (Num a) k = Num (a * int k)"
| "js_scale NaN k = NaN"
| "js_scale n k = (if k = 0 then NaN else n)"

text \<open>\<open>n >= 0\<close>.\<close>

fun js_ge0 :: "jsnum \<Rightarrow> bool" where
  "js_ge0 (Num a) = (0 \<le> a)"
| "js_ge0 PosInf = True"
| "js_ge0 _ = False"

subsection \<open>Strings\<close>

definition digit_char :: "nat \<Rightarrow> char" where
  "digit_char d = ''0123456789'' ! d"

function nat_toString :: "nat \<Rightarrow> string" where
  "nat_toString n =
     (if n < 10 then [digit_char n]
      else nat_toString (n div 10) @ [digit_char (n mod 10)])"
  by pat_completeness auto
termination
  by (relation "measure id") auto

declare nat_toString.simps [simp del]

definition int_toString :: "int \<Rightarrow> string" where
  "int_toString i =
     (if i < 0 then CHR ''-'' # nat_toString (nat (- i)) else nat_toString (nat i))"

text \<open>\<open>Number.prototype.toString\<close>, for integers printed in plain decimal notation.\<close>

fun toString :: "jsnum \<Rightarrow> string" where
  "toString (Num i) = int_toString i"
| "toString NaN = ''NaN''"
| "toString PosInf = ''Infinity''"
| "toString NegInf = ''-Infinity''"

text \<open>\<open>s.padStart(n, c)\<close> for a one-character filler.\<close>

definition padStart :: "nat \<Rightarrow> char \<Rightarrow> string \<Rightarrow> string" where
  "padStart n c s = replicate (n - length s) c @ s"

text \<open>\<open>Array.prototype.join\<close> on an array of strings.\<close>

fun join :: "string \<Rightarrow> string list \<Rightarrow> string" where
  "join sep [] = []"
| "join sep [x] = x"
| "join sep (x # y # ys) = x @ sep @ join sep (y # ys)"

text \<open>\<open>s.split(c)\<close> for a one-character separator: the result is never empty.\<close>

fun split :: "char \<Rightarrow> string \<Rightarrow> string list" where
  "split c [] = [[]]"
| "split c (x # xs) =
     (if x = c then [] # split c xs
      else (case split c xs of
              [] \<Rightarrow> [[x]]
            | p # ps \<Rightarrow> (x # p) # ps))"

text \<open>\<open>s.startsWith(p)\<close>.\<close>

fun startsWith :: "string \<Rightarrow> string \<Rightarrow> bool" where
  "startsWith s [] = True"
| "startsWith [] (p # ps) = False"
| "startsWith (c # cs) (p # ps) = (c = p \<and> startsWith cs ps)"

text \<open>\<open>arr[i]\<close> on an array: \<open>undefined\<close> (here \<open>None\<close>) out of range.\<close>

definition at_index :: "'a list \<Rightarrow> nat \<Rightarrow> 'a option" where
  "at_index xs i = (if i < length xs then Some (xs ! i) else None)"

definition isDigit :: "char \<Rightarrow> bool" where
  "isDigit c = (c \<in> set ''0123456789'')"

definition digitsValue :: "string \<Rightarrow> nat" where
  "digitsValue s = foldl (\<lambda>acc c. 10 * acc + (of_char c - 48)) 0 s"

text \<open>
  \<open>Number(s)\<close> on a string, for the strings the key grammars of the document produce: the
  empty string is \<open>0\<close>, a run of decimal digits with an optional sign is that integer,
  and a string that is not a numeric literal is \<open>NaN\<close>. (The other numeric literals of
  JavaScript, such as \<open>1e3\<close>, \<open>0x10\<close>, \<open>1.5\<close> or padded with white space, do not occur
  in composite keys or fragment keys and are not modelled.)
\<close>

definition Number_str :: "string \<Rightarrow> jsnum" where
  "Number_str s =
     (if s = [] then Num 0
      else if list_all isDigit s then Num (int (digitsValue s))
      else (case s of
              [] \<Rightarrow> Num 0
            | c # r \<Rightarrow>
                if (c = CHR ''-'' \<or> c = CHR ''+'') \<and> r \<noteq> [] \<and> list_all isDigit r
                then Num ((if c = CHR ''-'' then - 1 else 1) * int (digitsValue r))
                else NaN))"

text \<open>\<open>Number(v)\<close> where \<open>v\<close> may be \<open>undefined\<close>.\<close>

definition Number_opt :: "string option \<Rightarrow> jsnum" where
  "Number_opt v = (case v of None \<Rightarrow> NaN | Some s \<Rightarrow> Number_str s)"

text \<open>
  JavaScript objects used as dictionaries are association lists in insertion order,
  which is the order of \<open>Object.keys\<close> and of \<open>for ... in\<close> for keys that are not array
  indices (composite keys contain a space, fragment keys contain commas).
\<close>

fun obj_get :: "(string \<times> 'v) list \<Rightarrow> string \<Rightarrow> 'v option" where
  "obj_get [] k = None"
| "obj_get ((k', v) # rest) k = (if k' = k then Some v else obj_get rest k)"

text \<open>\<open>obj[k] = v\<close>: an existing key keeps its place, a new key goes last.\<close>

fun obj_set :: "(string \<times> 'v) list \<Rightarrow> string \<Rightarrow> 'v \<Rightarrow> (string \<times> 'v) list" where
  "obj_set [] k v = [(k, v)]"
| "obj_set ((k', v') # rest) k v =
     (if k' = k then (k, v) # rest else (k', v') # obj_set rest k v)"

text \<open>\<open>delete obj[k]\<close>.\<close>

definition obj_delete :: "(string \<times> 'v) list \<Rightarrow> string \<Rightarrow> (string \<times> 'v) list" where
  "obj_delete obj k = filter (\<lambda>(k', v). k' \<noteq> k) obj"

definition obj_keys :: "(string \<times> 'v) list \<Rightarrow> string list" where
  "obj_keys obj = map fst obj"

section \<open>Images\<close>

text \<open>
  A decoded image (\<open>ImageBitmap\<close>, or the content of a canvas): its size and the RGBA
  value of each cell, channels in \<open>0..255\<close>.
\<close>

type_synonym rgba = "nat \<times> nat \<times> nat \<times> nat"

record image =
  width :: nat
  height :: nat
  pixel :: "nat \<Rightarrow> nat \<Rightarrow> rgba"

definition alpha :: "rgba \<Rightarrow> nat" where
  "alpha p = (case p of (r, g, b, a) \<Rightarrow> a)"

definition rgba_bytes :: "rgba \<Rightarrow> nat list" where
  "rgba_bytes p = (case p of (r, g, b, a) \<Rightarrow> [r, g, b, a])"

text \<open>
  \<open>ctx.getImageData(0, 0, bmp.width, bmp.height).data\<close> after the bitmap has been drawn
  on a cleared canvas of its own size: the cells in row-major order, four bytes each.
\<close>

definition getImageData :: "image \<Rightarrow> nat list" where
  "getImageData bmp =
     concat (map (\<lambda>i. rgba_bytes (pixel bmp (i mod width bmp) (i div width bmp)))
               [0..<width bmp * height bmp])"

section \<open>The pixel-count reconstructor\<close>

text \<open>The inner loop \<open>for (let x = \<dots>; x < width; x += 3)\<close> of one row \<open>y\<close>.\<close>

function countRow :: "nat list \<Rightarrow> nat \<Rightarrow> nat \<Rightarrow> nat \<Rightarrow> nat \<Rightarrow> nat" where
  "countRow dat w y x tot =
     (if x < w
      then countRow dat w y (x + 3)
             (let idx = (y * w + x) * 4 in if dat ! (idx + 3) > 0 then tot + 1 else tot)
      else tot)"
  by pat_completeness auto
termination
  by (relation "measure (\<lambda>(dat, w, y, x, tot). w - x)") auto

declare countRow.simps [simp del]

text \<open>The outer loop \<open>for (let y = \<dots>; y < height; y += 3)\<close>.\<close>

function countRows :: "nat list \<Rightarrow> nat \<Rightarrow> nat \<Rightarrow> nat \<Rightarrow> nat \<Rightarrow> nat" where
  "countRows dat w h y tot =
     (if y < h then countRows dat w h (y + 3) (countRow dat w y 1 tot) else tot)"
  by pat_completeness auto
termination
  by (relation "measure (\<lambda>(dat, w, h, y, tot). h - y)") auto

declare countRows.simps [simp del]

text \<open>
  The loop over \<open>Object.keys(tileBitmaps)\<close>. \<open>ctx\<close> says whether
  \<open>canvas.getContext('2d')\<close> gave a context: without one, \<open>ctx.clearRect\<close> throws at the
  first bitmap. \<open>getImageData\<close> throws on an empty rectangle. A falsy entry is skipped.
\<close>

fun countTiles :: "bool \<Rightarrow> (string \<times> image option) list \<Rightarrow> nat \<Rightarrow> error + nat" where
  "countTiles ctx [] tot = Inr tot"
| "countTiles ctx (entry # rest) tot =
     (case snd entry of
        None \<Rightarrow> countTiles ctx rest tot
      | Some bmp \<Rightarrow>
          if \<not> ctx then Inl TypeError
          else if width bmp = 0 \<or> height bmp = 0 then Inl IndexSizeError
          else countTiles ctx rest
                 (countRows (getImageData bmp) (width bmp) (height bmp) 1 tot))"

definition computePixelCountFromTiles ::
    "bool \<Rightarrow> (string \<times> image option) list \<Rightarrow> error + nat" where
  "computePixelCountFromTiles ctx tileBitmaps = countTiles ctx tileBitmaps 0"

text \<open>
  The count the reconstructor is meant to give for one bitmap: the cells whose column and
  row are both congruent to 1 modulo 3 and whose alpha channel is positive.
\<close>

definition centerCellCount :: "image \<Rightarrow> nat" where
  "centerCellCount bmp =
     length (filter (\<lambda>(y, x). x mod 3 = 1 \<and> y mod 3 = 1 \<and> 0 < alpha (pixel bmp x y))
               (List.product [0..<height bmp] [0..<width bmp]))"


section \<open>The persisted document and the Template instances\<close>

text \<open>
  The value of the \<open>pixelCount\<close> property of a template entry of the document: absent,
  a number, or a value of another type.
\<close>

datatype pcval = PCAbsent | PCNumber jsnum | PCOther

text \<open>
  One entry of \<open>templates\<close> in the JSON document. A property that is absent is \<open>None\<close>;
  a missing \<open>tiles\<close> object iterates like an empty one and is the empty list.
\<close>

record entry =
  json_name :: "string option"
  json_coords :: "string option"
  json_enabled :: "bool option"
  json_tiles :: "(string \<times> string) list"
  json_pixelCount :: pcval

record document =
  whoami :: "string option"
  scriptVersion :: "string option"
  schemaVersion :: "string option"
  templates :: "(string \<times> entry) list option"

text \<open>
  An instance of the class \<open>Template\<close>, with the fields the manager reads and writes
  (\<open>chunked\<close> maps fragment keys to bitmaps; \<open>coords\<close> is \<open>undefined\<close> on an imported
  template).
\<close>

record template =
  displayName :: string
  sortID :: int
  authorID :: string
  coords :: "jsnum list option"
  enabled :: bool
  chunked :: "(string \<times> image) list"
  pixelCount :: jsnum

text \<open>
  What \<open>overlay.handleDisplayStatus\<close> is given. \<open>WithPixels s n\<close> is the text \<open>s\<close>
  followed by \<open>new Intl.NumberFormat().format(n)\<close>, whose digits grouping depends on the
  locale.
\<close>

datatype status = Plain string | WithPixels string jsnum

text \<open>The fields of the class \<open>TemplateManager\<close> that its template operations use.\<close>

record manager =
  name :: string
  version :: string
  templatesVersion :: string
  userID :: "nat option"
  encodingBase :: string
  tileSize :: nat
  drawMult :: nat
  templatesArray :: "template list"
  templatesJSON :: "document option"
  templatesShouldBeDrawn :: bool

text \<open>
  A session: the manager together with what it acts on. \<open>statusLog\<close> collects the calls of
  \<open>overlay.handleDisplayStatus\<close>, \<open>consoleLog\<close> those of \<open>console.warn\<close> and
  \<open>console.error\<close>; \<open>gmStorage\<close> is the value under \<open>bmTemplates\<close> in the userscript
  storage and \<open>localStorage\<close> the one under \<open>BlueMarbleTemplates\<close>. The last three fields
  are the browser: whether \<open>localStorage.setItem\<close> succeeds, whether
  \<open>getContext('2d')\<close> gives a context, and the image a base64 fragment decodes to
  (\<open>base64ToUint8\<close>, \<open>new Blob\<close>, \<open>createImageBitmap\<close>), \<open>None\<close> when it does not
  decode.
\<close>

record session = manager +
  statusLog :: "status list"
  consoleLog :: "string list"
  gmStorage :: "document option"
  localStorage :: "document option"
  localStorageWritable :: bool
  canvas2d :: bool
  decodeTile :: "string \<Rightarrow> image option"

text \<open>The constructor, in a browser with the given facilities.\<close>

definition TemplateManager ::
    "string \<Rightarrow> string \<Rightarrow> bool \<Rightarrow> bool \<Rightarrow> (string \<Rightarrow> image option) \<Rightarrow> session" where
  "TemplateManager nm ver lsw c2d dec =
     \<lparr> name = nm, version = ver, templatesVersion = ''1.0.0'', userID = None,
       encodingBase = ''!#$%&'' @ [CHR 0x27] @
         ''()*+,-./0123456789:;<=>?@ABCDEFGHIJKLMNOPQRSTUVWXYZ[]^_`abcdefghijklmnopqrstuvwxyz{|}~'',
       tileSize = 1000, drawMult = 3,
       templatesArray = [], templatesJSON = None, templatesShouldBeDrawn = True,
       statusLog = [], consoleLog = [], gmStorage = None, localStorage = None,
       localStorageWritable = lsw, canvas2d = c2d, decodeTile = dec \<rparr>"

text \<open>
  Modelled from the spec: \<open>numberToEncoded\<close> of \<open>utils.js\<close>, which is not among the
  sources. The spec gives it as a positional encoding over the alphabet, radix the length
  of the alphabet, most significant digit first, zero mapped to the first character.
\<close>

function encodeDigits :: "nat \<Rightarrow> string \<Rightarrow> string \<Rightarrow> string" where
  "encodeDigits n enc acc =
     (if n = 0 \<or> length enc \<le> 1 then acc
      else encodeDigits (n div length enc) enc (enc ! (n mod length enc) # acc))"
  by pat_completeness auto
termination
  by (relation "measure (\<lambda>(n, enc, acc). n)") auto

declare encodeDigits.simps [simp del]

definition numberToEncoded :: "nat \<Rightarrow> string \<Rightarrow> string" where
  "numberToEncoded n enc = (if n = 0 then take 1 enc else encodeDigits n enc [])"

text \<open>\<open>createJSON\<close>: \<open>this.name.replace(' ', '')\<close> removes the first space only.\<close>

definition createJSON :: "session \<Rightarrow> document" where
  "createJSON m =
     \<lparr> whoami = Some (remove1 (CHR '' '') (name m)),
       scriptVersion = Some (version m),
       schemaVersion = Some (templatesVersion m),
       templates = Some [] \<rparr>"

text \<open>
  The first statement of every mutating operation:
  \<open>if (!this.templatesJSON) {this.templatesJSON = await this.createJSON();}\<close>.
\<close>

definition ensureJSON :: "session \<Rightarrow> session" where
  "ensureJSON m =
     (case templatesJSON m of
        None \<Rightarrow> m\<lparr>templatesJSON := Some (createJSON m)\<rparr>
      | Some d \<Rightarrow> m)"

text \<open>
  \<open>#storeTemplates\<close>: the document is serialised into both stores; a failing write to
  \<open>localStorage\<close> is caught and logged.
\<close>

definition storeTemplates :: "session \<Rightarrow> session" where
  "storeTemplates m =
     (let m1 = m\<lparr>gmStorage := templatesJSON m\<rparr>
      in if localStorageWritable m1 then m1\<lparr>localStorage := templatesJSON m\<rparr>
         else m1\<lparr>consoleLog := consoleLog m1 @
                ''[BlueMarble] Failed to write localStorage backup for templates:'' # []\<rparr>)"

text \<open>
  The result of \<open>template.createTemplateTiles(this.tileSize)\<close>, the chunker of
  \<open>Template.js\<close>, which is not among the sources: the bitmaps and the base64 buffers per
  fragment key, and the pixel count it leaves in \<open>template.pixelCount\<close>. It is an input of
  \<open>createTemplate\<close> here; \<open>Inl\<close> is a file that does not decode.
\<close>

record chunks =
  templateTiles :: "(string \<times> image) list"
  templateTilesBuffers :: "(string \<times> string) list"
  chunkedPixelCount :: jsnum

text \<open>\<open>coords.join(', ')\<close> on an array of numbers.\<close>

definition joinCoords :: "jsnum list \<Rightarrow> string" where
  "joinCoords cs = join '', '' (map toString cs)"

text \<open>
  \<open>createTemplate\<close>. The composite key is \<open>`${template.sortID} ${template.authorID}`\<close>.
  Reading \<open>Object.keys\<close> of a document without \<open>templates\<close> throws.

  Modelled from the spec: the constructor of \<open>Template\<close> (\<open>Template.js\<close> is not among the
  sources) is given no \<open>enabled\<close> here; a created template is enabled, as the entry
  written to the document says.
\<close>

definition createTemplate ::
    "session \<Rightarrow> string \<Rightarrow> jsnum list \<Rightarrow> error + chunks \<Rightarrow> (error + unit) \<times> session" where
  "createTemplate m0 nm cs chunker =
     (let m1 = ensureJSON m0;
          m2 = m1\<lparr>statusLog := statusLog m1 @
                 [Plain (''Creating template at '' @ joinCoords cs @ ''...'')]\<rparr>
      in case templatesJSON m2 of
           None \<Rightarrow> (Inl TypeError, m2)
         | Some doc \<Rightarrow>
            (case templates doc of
               None \<Rightarrow> (Inl TypeError, m2)
             | Some ts \<Rightarrow>
                (case chunker of
                   Inl e \<Rightarrow> (Inl e, m2)
                 | Inr c \<Rightarrow>
                    (let t = \<lparr> displayName = nm,
                               sortID = int (length (obj_keys ts)),
                               authorID = numberToEncoded
                                 (case userID m2 of None \<Rightarrow> 0 | Some u \<Rightarrow> u) (encodingBase m2),
                               coords = Some cs,
                               enabled = True,
                               chunked = templateTiles c,
                               pixelCount = chunkedPixelCount c \<rparr>;
                         key = int_toString (sortID t) @ '' '' @ authorID t;
                         e = \<lparr> json_name = Some (displayName t),
                               json_coords = Some (joinCoords cs),
                               json_enabled = Some True,
                               json_tiles = templateTilesBuffers c,
                               json_pixelCount = PCNumber (pixelCount t) \<rparr>;
                         m3 = m2\<lparr>templatesJSON := Some (doc\<lparr>templates := Some (obj_set ts key e)\<rparr>),
                                 templatesArray := templatesArray m2 @ [t]\<rparr>;
                         m4 = m3\<lparr>statusLog := statusLog m3 @
                                [WithPixels (''Template created at '' @ joinCoords cs @
                                   ''! Total pixels: '') (pixelCount t)]\<rparr>
                     in (Inr (), storeTemplates m4)))))"

text \<open>
  The match of a Template instance against a composite key, as \<open>deleteTemplate\<close>,
  \<open>toggleTemplate\<close> and the update operations write it:
  \<open>const [sortID, authorID] = templateKey.split(' ')\<close>, then
  \<open>t.sortID == Number(sortID) && t.authorID === authorID\<close>.
\<close>

definition matchesKey :: "string \<Rightarrow> template \<Rightarrow> bool" where
  "matchesKey templateKey t =
     (let parts = split (CHR '' '') templateKey
      in Number_opt (at_index parts 0) = Num (sortID t) \<and> at_index parts 1 = Some (authorID t))"

text \<open>\<open>deleteTemplate\<close>.\<close>

definition deleteTemplate :: "session \<Rightarrow> string \<Rightarrow> (error + unit) \<times> session" where
  "deleteTemplate m0 templateKey =
     (let m1 = ensureJSON m0
      in case templatesJSON m1 of
           None \<Rightarrow> (Inl TypeError, m1)
         | Some doc \<Rightarrow>
            (case templates doc of
               None \<Rightarrow> (Inl TypeError, m1)
             | Some ts \<Rightarrow>
                (let m2 = m1\<lparr>templatesJSON := Some (doc\<lparr>templates := Some (obj_delete ts templateKey)\<rparr>)\<rparr>;
                     m3 = m2\<lparr>templatesArray :=
                             filter (\<lambda>t. \<not> matchesKey templateKey t) (templatesArray m2)\<rparr>
                 in (Inr (), storeTemplates m3))))"

text \<open>
  The argument \<open>newCoords\<close> of \<open>updateTemplateCoordinates\<close>: an array of numbers, or a
  value that is not an array.
\<close>

datatype coords_arg = CoordArray "jsnum list" | NotAnArray

text \<open>\<open>arr.find(p)\<close> followed by an assignment to a field of the element found.\<close>

fun update_first :: "('a \<Rightarrow> bool) \<Rightarrow> ('a \<Rightarrow> 'a) \<Rightarrow> 'a list \<Rightarrow> 'a list" where
  "update_first p f [] = []"
| "update_first p f (x # xs) = (if p x then f x # xs else x # update_first p f xs)"

text \<open>\<open>updateTemplateCoordinates\<close>.\<close>

definition updateTemplateCoordinates ::
    "session \<Rightarrow> string \<Rightarrow> coords_arg \<Rightarrow> (error + string) \<times> session" where
  "updateTemplateCoordinates m0 templateKey newCoords =
     (let m1 = ensureJSON m0
      in case newCoords of
           NotAnArray \<Rightarrow>
             (Inl (Error ''Coordinates must be an array of 4 numbers [tileX, tileY, pixelX, pixelY]''), m1)
         | CoordArray cs \<Rightarrow>
             if length cs \<noteq> 4
             then (Inl (Error ''Coordinates must be an array of 4 numbers [tileX, tileY, pixelX, pixelY]''), m1)
             else if \<not> list_all (\<lambda>coord. \<not> isNaN coord \<and> isFinite coord) cs
             then (Inl (Error ''All coordinates must be valid numbers''), m1)
             else
               (case templatesJSON m1 of
                  None \<Rightarrow> (Inl TypeError, m1)
                | Some doc \<Rightarrow>
                   (case templates doc of
                      None \<Rightarrow> (Inl TypeError, m1)
                    | Some ts \<Rightarrow>
                       (let ts' = (case obj_get ts templateKey of
                                     None \<Rightarrow> ts
                                   | Some e \<Rightarrow>
                                       obj_set ts templateKey (e\<lparr>json_coords := Some (joinCoords cs)\<rparr>));
                            m2 = m1\<lparr>templatesJSON := Some (doc\<lparr>templates := Some ts'\<rparr>)\<rparr>;
                            m3 = m2\<lparr>templatesArray :=
                                    update_first (matchesKey templateKey)
                                      (\<lambda>t. t\<lparr>coords := Some cs\<rparr>) (templatesArray m2)\<rparr>
                        in (Inr (''Template coordinates updated to: '' @ joinCoords cs),
                            storeTemplates m3)))))"

text \<open>\<open>setTemplatesShouldBeDrawn\<close>.\<close>

definition setTemplatesShouldBeDrawn :: "session \<Rightarrow> bool \<Rightarrow> session" where
  "setTemplatesShouldBeDrawn m v = m\<lparr>templatesShouldBeDrawn := v\<rparr>"


section \<open>The tile compositor\<close>

text \<open>
  A \<open>Blob\<close>: its media type and the image its bytes decode to (\<open>None\<close> when
  \<open>createImageBitmap\<close> rejects them).
\<close>

record blob =
  blob_type :: string
  blob_image :: "image option"

definition transparent :: rgba where
  "transparent = (0, 0, 0, 0)"

text \<open>\<open>new OffscreenCanvas(w, h)\<close>, and the canvas after \<open>clearRect\<close> over all of it.\<close>

definition OffscreenCanvas :: "nat \<Rightarrow> nat \<Rightarrow> image" where
  "OffscreenCanvas w h = \<lparr> width = w, height = h, pixel = (\<lambda>x y. transparent) \<rparr>"

text \<open>
  The default compositing of \<open>drawImage\<close>, source over destination: a fully transparent
  source cell leaves the canvas cell as it is, an opaque one replaces it, and a cell in
  between is blended (here with the quotients rounded down).
\<close>

definition source_over :: "rgba \<Rightarrow> rgba \<Rightarrow> rgba" where
  "source_over src dst =
     (case src of (rs, gs, bs, as) \<Rightarrow>
      case dst of (rd, gd, bd, ad) \<Rightarrow>
        if as = 0 then dst
        else if 255 \<le> as then src
        else (let ao = as * 255 + ad * (255 - as)
              in ((rs * as * 255 + rd * ad * (255 - as)) div ao,
                  (gs * as * 255 + gd * ad * (255 - as)) div ao,
                  (bs * as * 255 + bd * ad * (255 - as)) div ao,
                  ao div 255)))"

text \<open>
  \<open>context.drawImage(src, 0, 0, dw, dh)\<close> with \<open>imageSmoothingEnabled = false\<close>: each
  canvas cell of the target rectangle takes the source cell under its centre. Cells outside
  the canvas are clipped.
\<close>

definition drawImageScaled :: "image \<Rightarrow> image \<Rightarrow> nat \<Rightarrow> nat \<Rightarrow> image" where
  "drawImageScaled canvas src dw dh =
     canvas\<lparr>pixel := (\<lambda>x y.
        if x < width canvas \<and> y < height canvas \<and> x < dw \<and> y < dh
        then source_over
               (pixel src (((2 * x + 1) * width src) div (2 * dw))
                          (((2 * y + 1) * height src) div (2 * dh)))
               (pixel canvas x y)
        else pixel canvas x y)\<rparr>"

text \<open>\<open>context.drawImage(src, dx, dy)\<close>, unscaled, at an integer position.\<close>

definition drawImage :: "image \<Rightarrow> image \<Rightarrow> int \<Rightarrow> int \<Rightarrow> image" where
  "drawImage canvas src dx dy =
     canvas\<lparr>pixel := (\<lambda>x y.
        if x < width canvas \<and> y < height canvas
           \<and> dx \<le> int x \<and> int x < dx + int (width src)
           \<and> dy \<le> int y \<and> int y < dy + int (height src)
        then source_over (pixel src (nat (int x - dx)) (nat (int y - dy))) (pixel canvas x y)
        else pixel canvas x y)\<rparr>"

text \<open>
  The objects of \<open>templatesToDraw\<close>: the bitmap of a fragment and the parts of its key
  (\<open>tile.split(',')\<close>; a part the key does not have is \<open>undefined\<close>).
\<close>

record fragment =
  bitmap :: image
  tileCoords :: "string option \<times> string option"
  pixelCoords :: "string option \<times> string option"

text \<open>
  \<open>tileCoords[0].toString().padStart(4, '0') + ',' + tileCoords[1].toString().padStart(4, '0')\<close>
\<close>

definition tilePrefix :: "nat \<times> nat \<Rightarrow> string" where
  "tilePrefix tc =
     padStart 4 (CHR ''0'') (nat_toString (fst tc)) @ '','' @
     padStart 4 (CHR ''0'') (nat_toString (snd tc))"

text \<open>\<open>Object.keys(template.chunked).filter(tile => tile.startsWith(tileCoords))\<close>\<close>

definition matchingTiles :: "template \<Rightarrow> string \<Rightarrow> string list" where
  "matchingTiles t prefix = filter (\<lambda>tile. startsWith tile prefix) (obj_keys (chunked t))"

text \<open>
  The body of the \<open>map\<close> over the enabled templates: \<open>null\<close> when no fragment matches,
  otherwise the first matching fragment.
\<close>

definition matchingTileBlob :: "template \<Rightarrow> string \<Rightarrow> fragment option" where
  "matchingTileBlob t prefix =
     (case matchingTiles t prefix of
        [] \<Rightarrow> None
      | tile # others \<Rightarrow>
          (case obj_get (chunked t) tile of
             None \<Rightarrow> None
           | Some bmp \<Rightarrow>
               (let cs = split (CHR '','') tile
                in Some \<lparr> bitmap = bmp,
                          tileCoords = (at_index cs 0, at_index cs 1),
                          pixelCoords = (at_index cs 2, at_index cs 3) \<rparr>)))"

text \<open>\<open>templateArray.filter(enabled).map(...).filter(Boolean)\<close>\<close>

definition templatesToDraw :: "template list \<Rightarrow> string \<Rightarrow> fragment list" where
  "templatesToDraw templateArray prefix =
     List.map_filter (\<lambda>t. matchingTileBlob t prefix) (filter enabled templateArray)"

text \<open>The aggregate pixel count of the status message; \<open>pixelCount || 0\<close> per template.\<close>

definition totalPixels :: "template list \<Rightarrow> string \<Rightarrow> jsnum" where
  "totalPixels templateArray prefix =
     foldl (\<lambda>sum t. js_add sum (if truthy_num (pixelCount t) then pixelCount t else Num 0))
       (Num 0)
       (filter (\<lambda>t. matchingTiles t prefix \<noteq> [] \<and> enabled t) templateArray)"

text \<open>
  One turn of the drawing loop. \<open>drawImage\<close> does nothing when a coordinate is \<open>NaN\<close> or
  infinite.
\<close>

definition drawFragment :: "nat \<Rightarrow> image \<Rightarrow> fragment \<Rightarrow> image" where
  "drawFragment mult canvas f =
     (case js_scale (Number_opt (fst (pixelCoords f))) mult of
        Num dx \<Rightarrow>
          (case js_scale (Number_opt (snd (pixelCoords f))) mult of
             Num dy \<Rightarrow> drawImage canvas (bitmap f) dx dy
           | _ \<Rightarrow> canvas)
      | _ \<Rightarrow> canvas)"

text \<open>
  \<open>drawTemplateOnTile\<close>. \<open>templateArray\<close> is the array \<open>this.templatesArray\<close> itself, so
  \<open>sort\<close> (stable, by \<open>a.sortID - b.sortID\<close>) reorders the manager's array in place.
  \<open>convertToBlob\<close> rejects a canvas without cells. The 2D context of the canvas made here
  is taken to exist: the source has no path for a missing one.
\<close>

definition drawTemplateOnTile ::
    "session \<Rightarrow> blob \<Rightarrow> nat \<times> nat \<Rightarrow> (error + blob) \<times> session" where
  "drawTemplateOnTile m tileBlob tc =
     (if \<not> templatesShouldBeDrawn m then (Inr tileBlob, m)
      else
        (let drawSize = tileSize m * drawMult m;
             prefix = tilePrefix tc;
             templateArray = sort_key sortID (templatesArray m);
             m1 = m\<lparr>templatesArray := templateArray\<rparr>;
             toDraw = templatesToDraw templateArray prefix;
             templateCount = length toDraw;
             m2 = m1\<lparr>statusLog := statusLog m1 @
                    [if templateCount > 0
                     then WithPixels
                            (''Displaying '' @ nat_toString templateCount @ '' template'' @
                             (if templateCount = 1 then [] else ''s'') @ ''.'' @ [CHR 0x0A] @
                             ''Total pixels: '')
                            (totalPixels templateArray prefix)
                     else Plain (''Displaying '' @ nat_toString templateCount @ '' templates.'')]\<rparr>
         in case blob_image tileBlob of
              None \<Rightarrow> (Inl DecodeError, m2)
            | Some tileBitmap \<Rightarrow>
                (let canvas = drawImageScaled (OffscreenCanvas drawSize drawSize)
                                tileBitmap drawSize drawSize;
                     drawn = foldl (drawFragment (drawMult m)) canvas toDraw
                 in if drawSize = 0 then (Inl IndexSizeError, m2)
                    else (Inr \<lparr> blob_type = ''image/png'', blob_image = Some drawn \<rparr>, m2))))"

section \<open>Import\<close>

text \<open>
  White space as \<open>\s\<close> matches it, among the characters with a code below 256: tab, line
  feed, vertical tab, form feed, carriage return, space and the no-break space.
\<close>

definition isSpace :: "char \<Rightarrow> bool" where
  "isSpace c =
     (c \<in> set [CHR '' '', CHR 0x09, CHR 0x0A, CHR 0x0B, CHR 0x0C, CHR 0x0D, CHR 0xA0])"

text \<open>\<open>(this.name || '').replace(/\s+/g, '')\<close>\<close>

definition currentName :: "session \<Rightarrow> string" where
  "currentName m = filter (\<lambda>c. \<not> isSpace c) (name m)"

definition acceptedWhoami :: "session \<Rightarrow> string list" where
  "acceptedWhoami m = [''BlueMarble'', ''BluePeanits'', ''BluePeanuts'', currentName m]"

text \<open>
  The inner loop of \<open>#parseBlueMarble\<close> over the base64 fragments of one template; a
  fragment that does not decode throws.
\<close>

fun decodeTiles ::
    "(string \<Rightarrow> image option) \<Rightarrow> (string \<times> string) list \<Rightarrow> (string \<times> image) list option" where
  "decodeTiles dec [] = Some []"
| "decodeTiles dec (kv # rest) =
     (case dec (snd kv) of
        None \<Rightarrow> None
      | Some bmp \<Rightarrow>
          (case decodeTiles dec rest of
             None \<Rightarrow> None
           | Some r \<Rightarrow> Some ((fst kv, bmp) # r)))"

text \<open>
  The pixel count resolution of \<open>#parseBlueMarble\<close>: the count given to the Template
  instance, the entry of the document after the write-back, and what \<open>console.warn\<close> got.
\<close>

definition resolvePixelCount ::
    "bool \<Rightarrow> (string \<times> image) list \<Rightarrow> entry \<Rightarrow> jsnum \<times> entry \<times> string list" where
  "resolvePixelCount ctx tiles templateValue =
     (let trusted = (case json_pixelCount templateValue of
                       PCNumber n \<Rightarrow> if js_ge0 n then Some n else None
                     | _ \<Rightarrow> None)
      in case trusted of
           Some n \<Rightarrow> (n, templateValue, [])
         | None \<Rightarrow>
            (case computePixelCountFromTiles ctx (map (\<lambda>kv. (fst kv, Some (snd kv))) tiles) of
               Inr c \<Rightarrow>
                 (Num (int c), templateValue\<lparr>json_pixelCount := PCNumber (Num (int c))\<rparr>, [])
             | Inl e \<Rightarrow>
                 (let tileCount = (if length (obj_keys tiles) = 0 then 1 else length (obj_keys tiles));
                      pc = Num (int (tileCount * 500))
                  in (pc, templateValue\<lparr>json_pixelCount := PCNumber pc\<rparr>,
                      [''[BlueMarble] Failed to compute precise pixel count; falling back to heuristic:'']))))"

text \<open>
  The body of the loop of \<open>#parseBlueMarble\<close> for one entry, \<open>n\<close> being the length of
  \<open>templatesArray\<close> at that moment: the new Template instance, the entry after the
  write-back and the warnings.
\<close>

definition parseTemplate ::
    "session \<Rightarrow> nat \<Rightarrow> string \<Rightarrow> entry \<Rightarrow> error + (template \<times> entry \<times> string list)" where
  "parseTemplate m n templateKey templateValue =
     (let templateKeyArray = split (CHR '' '') templateKey;
          sortIDn = Number_opt (at_index templateKeyArray 0);
          author = (case at_index templateKeyArray 1 of
                      None \<Rightarrow> ''0''
                    | Some a \<Rightarrow> if a = [] then ''0'' else a);
          fallbackName = ''Template '' @ (if truthy_num sortIDn then toString sortIDn else []);
          dName = (case json_name templateValue of
                     None \<Rightarrow> fallbackName
                   | Some nm \<Rightarrow> if nm = [] then fallbackName else nm);
          en = (case json_enabled templateValue of None \<Rightarrow> True | Some b \<Rightarrow> b)
      in case decodeTiles (decodeTile m) (json_tiles templateValue) of
           None \<Rightarrow> Inl DecodeError
         | Some tiles \<Rightarrow>
            (case resolvePixelCount (canvas2d m) tiles templateValue of
               (pc, templateValue', warnings) \<Rightarrow>
                 Inr (\<lparr> displayName = dName,
                        sortID = (case sortIDn of
                                    Num i \<Rightarrow> if i \<noteq> 0 then i else int n
                                  | _ \<Rightarrow> int n),
                        authorID = author,
                        coords = None,
                        enabled = en,
                        chunked = tiles,
                        pixelCount = pc \<rparr>,
                      templateValue', warnings)))"

text \<open>
  The loop \<open>for (const template in templates)\<close>: the error that ended it if any, the
  array, the entries of the imported document and the warnings so far.
\<close>

fun parseTemplates ::
    "session \<Rightarrow> template list \<Rightarrow> (string \<times> entry) list \<Rightarrow>
       error option \<times> template list \<times> (string \<times> entry) list \<times> string list" where
  "parseTemplates m arr [] = (None, arr, [], [])"
| "parseTemplates m arr (kv # rest) =
     (case parseTemplate m (length arr) (fst kv) (snd kv) of
        Inl e \<Rightarrow> (Some e, arr, kv # rest, [])
      | Inr (t, v', ws) \<Rightarrow>
          (case parseTemplates m (arr @ [t]) rest of
             (e, arr', rest', ws') \<Rightarrow> (e, arr', (fst kv, v') # rest', ws @ ws')))"

text \<open>
  \<open>#parseBlueMarble(json)\<close>, on the array of the manager: reading the keys of a missing
  \<open>templates\<close> throws.
\<close>

definition parseBlueMarble ::
    "session \<Rightarrow> document \<Rightarrow> error option \<times> template list \<times> document \<times> string list" where
  "parseBlueMarble m json =
     (case templates json of
        None \<Rightarrow> (Some TypeError, templatesArray m, json, [])
      | Some ts \<Rightarrow>
          (case parseTemplates m (templatesArray m) ts of
             (e, arr', ts', ws) \<Rightarrow> (e, arr', json\<lparr>templates := Some ts'\<rparr>, ws)))"

text \<open>
  The merge loop of \<open>importJSON\<close>: an entry of the imported document is stored under its
  key when the current document has nothing there.
\<close>

definition mergeTemplates ::
    "(string \<times> entry) list \<Rightarrow> (string \<times> entry) list \<Rightarrow> (string \<times> entry) list" where
  "mergeTemplates current imported =
     foldl (\<lambda>d kv. if obj_get d (fst kv) = None then obj_set d (fst kv) (snd kv) else d)
       current imported"

text \<open>The text of the \<open>console.warn\<close> of a rejected import.\<close>

definition whoamiWarning :: "session \<Rightarrow> document \<Rightarrow> string" where
  "whoamiWarning m json =
     ''Template JSON '' @ [CHR 0x27] @ ''whoami'' @ [CHR 0x27] @ '' ('' @ [CHR 0x22] @
     (case whoami json of None \<Rightarrow> ''undefined'' | Some w \<Rightarrow> w) @ [CHR 0x22] @
     '') did not match any accepted identifiers: '' @ join '', '' (acceptedWhoami m)"

text \<open>
  \<open>importJSON\<close>. The entries the manager's document takes from the imported one are the
  same objects, so the pixel counts that \<open>#parseBlueMarble\<close> writes back afterwards are in
  the manager's document as well: the merge below uses the entries as the parse leaves
  them. A rejected parse is caught and logged. The imported document is an object read
  from storage or a file for this call.
\<close>

definition importJSON :: "session \<Rightarrow> document \<Rightarrow> (error + unit) \<times> session" where
  "importJSON m json0 =
     (let json = (if (whoami json0 = None \<or> whoami json0 = Some []) \<and> templates json0 \<noteq> None
                  then json0\<lparr>whoami := Some (currentName m)\<rparr> else json0)
      in if (case whoami json of None \<Rightarrow> False | Some w \<Rightarrow> w \<in> set (acceptedWhoami m))
         then
           (case parseBlueMarble m json of
              (e, arr', json', ws) \<Rightarrow>
                (let logs = ws @ (case e of
                                    None \<Rightarrow> []
                                  | Some err \<Rightarrow> [''[BlueMarble] Failed to parse templates:''])
                 in case templatesJSON m of
                      None \<Rightarrow>
                        (Inr (), m\<lparr>templatesJSON := Some json', templatesArray := arr',
                                   consoleLog := consoleLog m @ logs\<rparr>)
                    | Some doc \<Rightarrow>
                        (case templates json' of
                           None \<Rightarrow>
                             (Inr (), m\<lparr>templatesArray := arr', consoleLog := consoleLog m @ logs\<rparr>)
                         | Some jts \<Rightarrow>
                             (case templates doc of
                                None \<Rightarrow>
                                  if jts = []
                                  then (Inr (), m\<lparr>templatesArray := arr',
                                                  consoleLog := consoleLog m @ logs\<rparr>)
                                  else (Inl TypeError, m)
                              | Some dts \<Rightarrow>
                                  (Inr (), m\<lparr>templatesJSON :=
                                               Some (doc\<lparr>templates := Some (mergeTemplates dts jts)\<rparr>),
                                             templatesArray := arr',
                                             consoleLog := consoleLog m @ logs\<rparr>)))))
         else
           (Inr (), m\<lparr>consoleLog := consoleLog m @ [whoamiWarning m json]\<rparr>))"

section \<open>Observations of a session\<close>

text \<open>The coordinate string the document holds under a composite key.\<close>

definition storedCoords :: "session \<Rightarrow> string \<Rightarrow> string option" where
  "storedCoords m templateKey =
     (case templatesJSON m of
        None \<Rightarrow> None
      | Some doc \<Rightarrow>
          (case templates doc of
             None \<Rightarrow> None
           | Some ts \<Rightarrow>
               (case obj_get ts templateKey of
                  None \<Rightarrow> None
                | Some e \<Rightarrow> json_coords e)))"

text \<open>
  The number of entries of the templates collection of the document; a manager without a
  document creates an empty one before it counts.
\<close>

definition entryCount :: "session \<Rightarrow> nat" where
  "entryCount m =
     (case templatesJSON m of
        None \<Rightarrow> 0
      | Some doc \<Rightarrow>
          (case templates doc of
             None \<Rightarrow> 0
           | Some ts \<Rightarrow> length (obj_keys ts)))"

text \<open>Whether \<open>Object.keys(this.templatesJSON.templates)\<close> can be read once the document exists.\<close>

definition hasTemplates :: "session \<Rightarrow> bool" where
  "hasTemplates m =
     (case templatesJSON m of
        None \<Rightarrow> True
      | Some doc \<Rightarrow> templates doc \<noteq> None)"


text \<open>The image inside the blob that \<open>drawTemplateOnTile\<close> returns.\<close>

definition drawnImage :: "session \<Rightarrow> blob \<Rightarrow> nat \<times> nat \<Rightarrow> image option" where
  "drawnImage m tileBlob tc =
     (case fst (drawTemplateOnTile m tileBlob tc) of
        Inl e \<Rightarrow> None
      | Inr b \<Rightarrow> blob_image b)"



text \<open>Whether an entry of the document carries a non-negative numeric \<open>pixelCount\<close>.\<close>

definition carriesPixelCount :: "entry \<Rightarrow> bool" where
  "carriesPixelCount v =
     (case json_pixelCount v of
        PCNumber n \<Rightarrow> js_ge0 n
      | _ \<Rightarrow> False)"

text \<open>The entries of the document of the manager, in key order.\<close>

definition documentEntries :: "session \<Rightarrow> (string \<times> entry) list" where
  "documentEntries m =
     (case templatesJSON m of
        None \<Rightarrow> []
      | Some doc \<Rightarrow>
          (case templates doc of
             None \<Rightarrow> []
           | Some ts \<Rightarrow> ts))"

section \<open>Example data\<close>

text \<open>A shredded 6 by 6 bitmap: two opaque centre cells, and a column of faint cells off centre.\<close>

definition exampleBitmap :: image where
  "exampleBitmap =
     \<lparr> width = 6, height = 6,
       pixel = (\<lambda>x y. if x mod 3 = 1 \<and> y mod 3 = 1 \<and> x = y then (255, 0, 0, 255)
                     else if x = 0 then (0, 0, 0, 9) else (0, 0, 0, 0)) \<rparr>"

text \<open>Two shredded one-pixel fragments, a red one and a blue one.\<close>

definition redBitmap :: image where
  "redBitmap =
     \<lparr> width = 3, height = 3,
       pixel = (\<lambda>x y. if x = 1 \<and> y = 1 then (255, 0, 0, 255) else (0, 0, 0, 0)) \<rparr>"

definition blueBitmap :: image where
  "blueBitmap =
     \<lparr> width = 3, height = 3,
       pixel = (\<lambda>x y. if x = 1 \<and> y = 1 then (0, 0, 255, 255) else (0, 0, 0, 0)) \<rparr>"

definition exampleDecode :: "string \<Rightarrow> image option" where
  "exampleDecode s =
     (if s = ''cmVk'' then Some redBitmap
      else if s = ''Ymx1ZQ=='' then Some blueBitmap
      else None)"

text \<open>A manager as \<open>main.js\<close> constructs it, before anything is imported.\<close>

definition freshSession :: session where
  "freshSession = TemplateManager ''Blue Peanits'' ''0.81.1'' True True exampleDecode"

text \<open>
  A stored document with two templates on tile (0, 0), the one with the higher sort
  identifier first.
\<close>

definition entryFive :: entry where
  "entryFive =
     \<lparr> json_name = Some ''five'', json_coords = Some ''0, 0, 0, 0'',
       json_enabled = Some True, json_tiles = [(''0000,0000,0,0'', ''cmVk'')],
       json_pixelCount = PCNumber (Num 1) \<rparr>"

definition entryTwo :: entry where
  "entryTwo =
     \<lparr> json_name = Some ''two'', json_coords = Some ''0, 0, 0, 0'',
       json_enabled = Some True, json_tiles = [(''0000,0000,0,0'', ''Ymx1ZQ=='')],
       json_pixelCount = PCNumber (Num 1) \<rparr>"

definition exampleDocument :: document where
  "exampleDocument =
     \<lparr> whoami = Some ''BlueMarble'', scriptVersion = Some ''0.81.1'',
       schemaVersion = Some ''1.0.0'',
       templates = Some [(''5 !'', entryFive), (''2 !'', entryTwo)] \<rparr>"

definition templateFive :: template where
  "templateFive =
     \<lparr> displayName = ''five'', sortID = 5, authorID = ''!'', coords = None, enabled = True,
       chunked = [(''0000,0000,0,0'', redBitmap)], pixelCount = Num 1 \<rparr>"

definition templateTwo :: template where
  "templateTwo =
     \<lparr> displayName = ''two'', sortID = 2, authorID = ''!'', coords = None, enabled = True,
       chunked = [(''0000,0000,0,0'', blueBitmap)], pixelCount = Num 1 \<rparr>"

text \<open>The session after \<open>importJSON\<close> of that document into the fresh manager.\<close>

definition importedSession :: session where
  "importedSession =
     freshSession\<lparr>templatesJSON := Some exampleDocument,
                  templatesArray := [templateFive, templateTwo]\<rparr>"

text \<open>A live tile: 1000 by 1000 cells of one opaque colour.\<close>

definition exampleTile :: blob where
  "exampleTile =
     \<lparr> blob_type = ''image/webp'',
       blob_image = Some \<lparr> width = 1000, height = 1000, pixel = (\<lambda>x y. (10, 20, 30, 255)) \<rparr> \<rparr>"

text \<open>A chunked one-pixel image, and a session that creates, deletes and creates again.\<close>

definition exampleChunks :: chunks where
  "exampleChunks =
     \<lparr> templateTiles = [(''0000,0000,0,0'', redBitmap)],
       templateTilesBuffers = [(''0000,0000,0,0'', ''cmVk'')],
       chunkedPixelCount = Num 1 \<rparr>"

definition afterCreate :: session where
  "afterCreate =
     snd (createTemplate freshSession ''first'' [Num 0, Num 0, Num 0, Num 0] (Inr exampleChunks))"

definition afterDelete :: session where
  "afterDelete = snd (deleteTemplate afterCreate ''0 !'')"

definition afterCreateAgain :: session where
  "afterCreateAgain =
     snd (createTemplate afterDelete ''second'' [Num 0, Num 0, Num 0, Num 0] (Inr exampleChunks))"



text \<open>
  A document written before pixel counts were stored, and a browser that gives no 2D
  context.
\<close>

definition legacyEntry :: entry where
  "legacyEntry =
     \<lparr> json_name = Some ''old'', json_coords = Some ''0, 0, 0, 0'',
       json_enabled = Some True, json_tiles = [(''0000,0000,0,0'', ''cmVk'')],
       json_pixelCount = PCAbsent \<rparr>"

definition legacyDocument :: document where
  "legacyDocument =
     \<lparr> whoami = Some ''BlueMarble'', scriptVersion = Some ''0.80.0'',
       schemaVersion = Some ''1.0.0'', templates = Some [(''0 !'', legacyEntry)] \<rparr>"

definition noCanvasSession :: session where
  "noCanvasSession = TemplateManager ''Blue Peanits'' ''0.81.1'' True False exampleDecode"

text \<open>The example document without an identity: \<open>whoami\<close> is the empty string.\<close>

definition anonymousDocument :: document where
  "anonymousDocument = exampleDocument\<lparr>whoami := Some []\<rparr>"

text \<open>
  A document whose first template has a fragment that does not decode, followed by the
  template of the document above; the session after its import, in which the parse stopped
  at the first template; and the session after the import of \<open>legacyDocument\<close> into that
  one.
\<close>

definition brokenEntry :: entry where
  "brokenEntry =
     \<lparr> json_name = Some ''broken'', json_coords = Some ''0, 0, 0, 0'',
       json_enabled = Some True, json_tiles = [(''0000,0000,0,0'', ''????'')],
       json_pixelCount = PCAbsent \<rparr>"

definition brokenDocument :: document where
  "brokenDocument =
     \<lparr> whoami = Some ''BlueMarble'', scriptVersion = Some ''0.80.0'',
       schemaVersion = Some ''1.0.0'',
       templates = Some [(''9 !'', brokenEntry), (''0 !'', legacyEntry)] \<rparr>"

definition afterBrokenImport :: session where
  "afterBrokenImport = snd (importJSON freshSession brokenDocument)"

definition afterLegacyImport :: session where
  "afterLegacyImport = snd (importJSON afterBrokenImport legacyDocument)"

section \<open>Evaluation of the example sessions\<close>

lemma import_example:
  "importJSON freshSession exampleDocument = (Inr (), importedSession)"
  by (simp add: importJSON_def freshSession_def TemplateManager_def exampleDocument_def
      acceptedWhoami_def parseBlueMarble_def parseTemplate_def entryFive_def entryTwo_def
      exampleDecode_def resolvePixelCount_def importedSession_def templateFive_def
      templateTwo_def Number_opt_def at_index_def Number_str_def isDigit_def digitsValue_def
      Let_def)

lemma example_toDraw:
  "length (templatesToDraw (templatesArray importedSession) (tilePrefix (0, 0))) = 2"
  by code_simp

section \<open>The pixel-count reconstructor counts the opaque centre cells\<close>

lemma length_concat_fixed:
  "(\<And>i. i < n \<Longrightarrow> length (f i) = k) \<Longrightarrow> length (concat (map f [0..<n])) = n * k"
  by (induction n) auto

lemma concat_nth_fixed:
  assumes len: "\<And>i. i < n \<Longrightarrow> length (f i) = k" and i: "i < n" and j: "j < k"
  shows "concat (map f [0..<n]) ! (i * k + j) = f i ! j"
  using len i
proof (induction n)
  case 0
  then show ?case by simp
next
  case (Suc n)
  have L: "length (concat (map f [0..<n])) = n * k"
    using Suc.prems(1) by (intro length_concat_fixed) simp
  show ?case
  proof (cases "i < n")
    case True
    have "i * k + j < n * k"
    proof -
      have "i * k + j < i * k + k" using j by simp
      also have "\<dots> = Suc i * k" by simp
      also have "\<dots> \<le> n * k" using True by (intro mult_le_mono1) simp
      finally show ?thesis .
    qed
    with Suc True L show ?thesis by (simp add: nth_append)
  next
    case False
    with Suc.prems have "i = n" by simp
    with L j Suc.prems show ?thesis by (simp add: nth_append)
  qed
qed

lemma getImageData_alpha:
  assumes "x < width bmp" "y < height bmp"
  shows "getImageData bmp ! ((y * width bmp + x) * 4 + 3) = alpha (pixel bmp x y)"
proof -
  let ?f = "\<lambda>i. rgba_bytes (pixel bmp (i mod width bmp) (i div width bmp))"
  have len: "\<And>i. length (?f i) = 4"
    by (simp add: rgba_bytes_def split: prod.splits)
  have "y * width bmp + x < Suc y * width bmp" using assms by simp
  also have "\<dots> \<le> height bmp * width bmp" using assms by (intro mult_le_mono1) simp
  finally have lt: "y * width bmp + x < width bmp * height bmp" by (simp add: mult.commute)
  have "getImageData bmp ! ((y * width bmp + x) * 4 + 3) = ?f (y * width bmp + x) ! 3"
    unfolding getImageData_def using len lt by (intro concat_nth_fixed) auto
  also have "\<dots> = alpha (pixel bmp x y)"
    using assms by (simp add: rgba_bytes_def alpha_def split: prod.splits)
  finally show ?thesis .
qed

lemma filter_upt_step3:
  assumes "x < w" "x mod 3 = 1"
  shows "filter (\<lambda>x'. x' mod 3 = 1 \<and> P x') [x..<w]
       = (if P x then [x] else []) @ filter (\<lambda>x'. x' mod 3 = 1 \<and> P x') [x + 3..<w]"
proof -
  have split: "[x..<w] = [x..<min (x + 3) w] @ [x + 3..<w]"
  proof (cases "x + 3 \<le> w")
    case True
    then show ?thesis using upt_add_eq_append[of x x 3] 
      by (metis le_add1 le_add_diff_inverse min.absorb1 upt_add_eq_append)
  next
    case False
    then show ?thesis by simp
  qed
  have "filter (\<lambda>x'. x' mod 3 = 1 \<and> P x') [x..<min (x + 3) w] = (if P x then [x] else [])"
  proof -
    have "[x..<min (x+3) w] = x # [Suc x..<min (x+3) w]"
      using assms by (simp add: upt_conv_Cons)
    moreover have "filter (\<lambda>x'. x' mod 3 = 1 \<and> P x') [Suc x..<min (x+3) w] = []"
    proof -
      have "\<forall>x' \<in> set [Suc x..<min (x+3) w]. x' mod 3 \<noteq> 1"
      proof
        fix x' assume "x' \<in> set [Suc x..<min (x+3) w]"
        then have "x' = x + 1 \<or> x' = x + 2" by auto
        with assms show "x' mod 3 \<noteq> 1" by presburger
      qed
      then show ?thesis by (auto simp: filter_empty_conv)
    qed
    ultimately show ?thesis using assms by simp
  qed
  then show ?thesis by (subst split) simp
qed

lemma countRow_filter:
  "x mod 3 = 1 \<Longrightarrow>
   countRow dat w y x tot =
     tot + length (filter (\<lambda>x'. x' mod 3 = 1 \<and> 0 < dat ! ((y * w + x') * 4 + 3)) [x..<w])"
proof (induction dat w y x tot rule: countRow.induct)
  case (1 dat w y x tot)
  show ?case
  proof (cases "x < w")
    case True
    have m: "(x + 3) mod 3 = 1" using "1.prems" by presburger
    show ?thesis
      using "1.IH"[OF True m] True
      by (subst countRow.simps, subst filter_upt_step3[OF True "1.prems"]) (simp add: Let_def)
  next
    case False
    then show ?thesis by (subst countRow.simps) simp
  qed
qed


lemma countRow_row:
  "countRow dat w y 1 tot =
     tot + length (filter (\<lambda>x'. x' mod 3 = 1 \<and> 0 < dat ! ((y * w + x') * 4 + 3)) [0..<w])"
proof -
  have "filter (\<lambda>x'. x' mod 3 = 1 \<and> 0 < dat ! ((y * w + x') * 4 + 3)) [0..<w]
      = filter (\<lambda>x'. x' mod 3 = 1 \<and> 0 < dat ! ((y * w + x') * 4 + 3)) [1..<w]"
    by (cases w) (simp_all add: upt_conv_Cons)
  then show ?thesis by (simp add: countRow_filter)
qed

lemma filter_product_rows:
  "length (filter (\<lambda>(a, b). Q a b \<and> P a) (List.product as bs))
     = sum_list (map (\<lambda>a. length (filter (Q a) bs)) (filter P as))"
  by (induction as) (auto simp: filter_map comp_def)

lemma countRows_filter:
  "y mod 3 = 1 \<Longrightarrow>
   countRows dat w h y tot =
     tot + sum_list (map (\<lambda>y'. length (filter (\<lambda>x'. x' mod 3 = 1 \<and> 0 < dat ! ((y' * w + x') * 4 + 3)) [0..<w]))
                      (filter (\<lambda>y'. y' mod 3 = 1 \<and> True) [y..<h]))"
proof (induction dat w h y tot rule: countRows.induct)
  case (1 dat w h y tot)
  show ?case
  proof (cases "y < h")
    case True
    have m: "(y + 3) mod 3 = 1" using "1.prems" by presburger
    show ?thesis
      using "1.IH"[OF True m] True
      by (subst countRows.simps, subst filter_upt_step3[OF True "1.prems"])
         (simp add: countRow_row[simplified])
  next
    case False
    then show ?thesis by (subst countRows.simps) simp
  qed
qed

lemma countRows_centerCellCount:
  "countRows (getImageData bmp) (width bmp) (height bmp) 1 tot = tot + centerCellCount bmp"
proof -
  let ?Q = "\<lambda>y x. x mod 3 = 1 \<and> 0 < alpha (pixel bmp x y)"
  have rows: "\<And>y. y < height bmp \<Longrightarrow>
      filter (\<lambda>x'. x' mod 3 = 1 \<and> 0 < getImageData bmp ! ((y * width bmp + x') * 4 + 3)) [0..<width bmp]
    = filter (?Q y) [0..<width bmp]"
    by (rule filter_cong) (simp_all add: getImageData_alpha[simplified])
  have "filter (\<lambda>y'. y' mod 3 = 1 \<and> True) [1..<height bmp] = filter (\<lambda>y'. y' mod 3 = 1) [0..<height bmp]"
    by (cases "height bmp") (simp_all add: upt_conv_Cons)
  then have "countRows (getImageData bmp) (width bmp) (height bmp) 1 tot
     = tot + sum_list (map (\<lambda>y'. length (filter (\<lambda>x'. x' mod 3 = 1 \<and> 0 < getImageData bmp ! ((y' * width bmp + x') * 4 + 3)) [0..<width bmp]))
                      (filter (\<lambda>y'. y' mod 3 = 1) [0..<height bmp]))"
    by (simp add: countRows_filter)
  also have "sum_list (map (\<lambda>y'. length (filter (\<lambda>x'. x' mod 3 = 1 \<and> 0 < getImageData bmp ! ((y' * width bmp + x') * 4 + 3)) [0..<width bmp]))
                      (filter (\<lambda>y'. y' mod 3 = 1) [0..<height bmp]))
     = sum_list (map (\<lambda>y'. length (filter (?Q y') [0..<width bmp])) (filter (\<lambda>y'. y' mod 3 = 1) [0..<height bmp]))"
    by (rule arg_cong[where f = sum_list], rule map_cong) (simp_all add: rows[simplified])
  also have "\<dots> = centerCellCount bmp"
    unfolding centerCellCount_def
    by (subst filter_product_rows[symmetric]) (simp add: conj_ac)
  finally show ?thesis .
qed

lemma countTiles_sum:
  "list_all (\<lambda>(k, b). 0 < width b \<and> 0 < height b) tiles \<Longrightarrow>
   countTiles True (map (\<lambda>(k, b). (k, Some b)) tiles) tot
     = Inr (tot + sum_list (map (\<lambda>(k, b). centerCellCount b) tiles))"
  by (induction tiles arbitrary: tot) (auto simp: countRows_centerCellCount[simplified])

text \<open>
  Claim C9. For every mapping from fragment keys to bitmaps, the reconstructor returns the
  number of cells, summed over the fragments, whose column and row are both congruent to
  1 modulo 3 and whose alpha channel is positive. (The canvas context is available and no
  bitmap is empty, so that nothing throws.)
\<close>

theorem reconstructor_counts_center_cells:
  "list_all (\<lambda>(k, b). 0 < width b \<and> 0 < height b) tiles \<Longrightarrow>
   computePixelCountFromTiles True (map (\<lambda>(k, b). (k, Some b)) tiles)
     = Inr (sum_list (map (\<lambda>(k, b). centerCellCount b) tiles))"
  by (simp add: computePixelCountFromTiles_def countTiles_sum)

theorem reconstructor_counts_center_cells_witness:
  "list_all (\<lambda>(k, b). 0 < width b \<and> 0 < height b) [(''0001,0002,3,4'', exampleBitmap)]
   \<and> computePixelCountFromTiles True [(''0001,0002,3,4'', Some exampleBitmap)] = Inr 2
   \<and> centerCellCount exampleBitmap = 2"
proof -
  have h: "list_all (\<lambda>(k, b). 0 < width b \<and> 0 < height b) [(''0001,0002,3,4'', exampleBitmap)]"
    by (simp add: exampleBitmap_def)
  have c: "centerCellCount exampleBitmap = 2"
    by code_simp
  from reconstructor_counts_center_cells[OF h] c h show ?thesis
    by simp
qed

section \<open>Drawing switched off\<close>

text \<open>
  Claim C10. When \<open>templatesShouldBeDrawn\<close> is false, \<open>drawTemplateOnTile\<close> returns the
  input blob itself and leaves the session as it is: nothing is composited or encoded, no
  status is emitted, whatever templates the manager holds.
\<close>

theorem draw_disabled_returns_input:
  "\<not> templatesShouldBeDrawn m \<Longrightarrow> drawTemplateOnTile m tileBlob tc = (Inr tileBlob, m)"
  by (simp add: drawTemplateOnTile_def)

theorem draw_disabled_returns_input_witness:
  "\<not> templatesShouldBeDrawn (setTemplatesShouldBeDrawn importedSession False)
   \<and> length (templatesToDraw (templatesArray (setTemplatesShouldBeDrawn importedSession False))
               (tilePrefix (0, 0))) = 2
   \<and> drawTemplateOnTile (setTemplatesShouldBeDrawn importedSession False) exampleTile (0, 0)
       = (Inr exampleTile, setTemplatesShouldBeDrawn importedSession False)"
proof -
  have h: "\<not> templatesShouldBeDrawn (setTemplatesShouldBeDrawn importedSession False)"
    by (simp add: setTemplatesShouldBeDrawn_def)
  have n: "length (templatesToDraw (templatesArray (setTemplatesShouldBeDrawn importedSession False))
               (tilePrefix (0, 0))) = 2"
    using example_toDraw by (simp add: setTemplatesShouldBeDrawn_def)
  from draw_disabled_returns_input[OF h] h n show ?thesis by simp
qed

section \<open>Import of a document with an unrecognised identity\<close>

text \<open>
  Claim C7, as the code has it. A document whose \<open>whoami\<close> is not one of the accepted
  identities is rejected as a whole, unless it is of the identity-less shape (\<open>whoami\<close>
  absent or empty, and a \<open>templates\<close> map), into which the current identity is put
  first: \<open>importJSON\<close> logs a warning and changes nothing else, so the document and the
  array of the manager are what they were.
\<close>

theorem import_rejects_unknown_whoami:
  assumes "whoami json \<notin> Some ` set (acceptedWhoami m)"
      and "templates json = None \<or> (\<exists>w. whoami json = Some w \<and> w \<noteq> [])"
  shows "importJSON m json = (Inr (), m\<lparr>consoleLog := consoleLog m @ [whoamiWarning m json]\<rparr>)"
proof -
  have same: "(if (whoami json = None \<or> whoami json = Some []) \<and> templates json \<noteq> None
               then json\<lparr>whoami := Some (currentName m)\<rparr> else json) = json"
    using assms(2) by auto
  have rej: "\<not> (case whoami json of None \<Rightarrow> False | Some w \<Rightarrow> w \<in> set (acceptedWhoami m))"
    using assms(1) by (auto split: option.splits)
  show ?thesis
    unfolding importJSON_def Let_def same using rej by simp
qed

lemma accepted_imported:
  "acceptedWhoami importedSession = [''BlueMarble'', ''BluePeanits'', ''BluePeanuts'', ''BluePeanits'']"
  "acceptedWhoami freshSession = [''BlueMarble'', ''BluePeanits'', ''BluePeanuts'', ''BluePeanits'']"
  by (simp_all add: acceptedWhoami_def currentName_def importedSession_def freshSession_def
        TemplateManager_def isSpace_def)

theorem import_rejects_unknown_whoami_witness:
  "whoami (exampleDocument\<lparr>whoami := Some ''SomeOtherTool''\<rparr>) = Some ''SomeOtherTool''
   \<and> ''SomeOtherTool'' \<noteq> []
   \<and> ''SomeOtherTool'' \<notin> set (acceptedWhoami importedSession)
   \<and> importJSON importedSession (exampleDocument\<lparr>whoami := Some ''SomeOtherTool''\<rparr>)
         = (Inr (), importedSession\<lparr>consoleLog := consoleLog importedSession @
              [whoamiWarning importedSession (exampleDocument\<lparr>whoami := Some ''SomeOtherTool''\<rparr>)]\<rparr>)
   \<and> whoami (anonymousDocument\<lparr>templates := None\<rparr>) = Some []
   \<and> [] \<notin> set (acceptedWhoami importedSession)
   \<and> importJSON importedSession (anonymousDocument\<lparr>templates := None\<rparr>)
         = (Inr (), importedSession\<lparr>consoleLog := consoleLog importedSession @
              [whoamiWarning importedSession (anonymousDocument\<lparr>templates := None\<rparr>)]\<rparr>)"
proof -
  let ?other = "exampleDocument\<lparr>whoami := Some ''SomeOtherTool''\<rparr>"
  let ?bare = "anonymousDocument\<lparr>templates := None\<rparr>"
  have h3: "''SomeOtherTool'' \<notin> set (acceptedWhoami importedSession)"
    and e3: "[] \<notin> set (acceptedWhoami importedSession)"
    by (simp_all add: accepted_imported)
  have h1: "whoami ?other = Some ''SomeOtherTool''" by simp
  have e1: "whoami ?bare = Some []" by (simp add: anonymousDocument_def)
  have a1: "whoami ?other \<notin> Some ` set (acceptedWhoami importedSession)"
    using h3 by (auto simp: h1)
  have a2: "templates ?other = None \<or> (\<exists>w. whoami ?other = Some w \<and> w \<noteq> [])"
    by simp
  have b1: "whoami ?bare \<notin> Some ` set (acceptedWhoami importedSession)"
    using e3 by (auto simp: e1)
  have b2: "templates ?bare = None \<or> (\<exists>w. whoami ?bare = Some w \<and> w \<noteq> [])"
    by simp
  from import_rejects_unknown_whoami[OF a1 a2] import_rejects_unknown_whoami[OF b1 b2]
       h1 h3 e1 e3
  show ?thesis by simp
qed

text \<open>
  Claim C7, the part that fails: the empty string is not an accepted identity, yet a
  document with that \<open>whoami\<close> and a \<open>templates\<close> map is imported, under the current
  identity and without a warning.
\<close>

theorem import_accepts_empty_whoami:
  "whoami anonymousDocument = Some []
   \<and> [] \<notin> set (acceptedWhoami freshSession)
   \<and> templatesJSON freshSession = None
   \<and> templatesArray freshSession = []
   \<and> fst (importJSON freshSession anonymousDocument) = Inr ()
   \<and> consoleLog (snd (importJSON freshSession anonymousDocument)) = []
   \<and> templatesJSON (snd (importJSON freshSession anonymousDocument))
       = Some (exampleDocument\<lparr>whoami := Some ''BluePeanits''\<rparr>)
   \<and> map displayName (templatesArray (snd (importJSON freshSession anonymousDocument)))
       = [''five'', ''two'']"
  by code_simp

section \<open>Coordinates out of range\<close>

text \<open>
  Claim C1 says that \<open>updateTemplateCoordinates\<close> refuses a tile index above 2047. The
  code checks the length of the array and that each entry is a finite number, nothing
  more: on the imported example, \<open>[2048, 0, 0, 0]\<close> is accepted, and both the document
  and the Template instance take the new coordinates.
\<close>

theorem updateTemplateCoordinates_accepts_2048:
  "fst (updateTemplateCoordinates importedSession ''5 !'' (CoordArray [Num 2048, Num 0, Num 0, Num 0]))
     = Inr ''Template coordinates updated to: 2048, 0, 0, 0''
   \<and> storedCoords importedSession ''5 !'' = Some ''0, 0, 0, 0''
   \<and> storedCoords (snd (updateTemplateCoordinates importedSession ''5 !''
                          (CoordArray [Num 2048, Num 0, Num 0, Num 0]))) ''5 !''
       = Some ''2048, 0, 0, 0''
   \<and> map coords (templatesArray (snd (updateTemplateCoordinates importedSession ''5 !''
                          (CoordArray [Num 2048, Num 0, Num 0, Num 0]))))
       = [Some [Num 2048, Num 0, Num 0, Num 0], None]"
  by code_simp

section \<open>The compositor sorts the array of the manager\<close>

text \<open>
  Claim C5 says that \<open>drawTemplateOnTile\<close> leaves the array of the manager in its order.
  The array it sorts is \<open>this.templatesArray\<close> itself: on the imported example, whose
  templates stand in the order 5, 2, the array is in the order 2, 5 after one call.
\<close>

theorem draw_reorders_templatesArray:
  "map sortID (templatesArray importedSession) = [5, 2]
   \<and> map sortID (templatesArray (snd (drawTemplateOnTile importedSession exampleTile (0, 0))))
       = [2, 5]"
  by code_simp

section \<open>Importing a document a second time\<close>

text \<open>
  Claim C3 says that a second import of the same document adds nothing. The merge leaves
  the document of the manager as it is, but every template of the imported document is
  parsed into the array again: after the second import of the example the array holds
  four Template instances.
\<close>

theorem second_import_duplicates_templates:
  "importJSON freshSession exampleDocument = (Inr (), importedSession)
   \<and> templatesJSON (snd (importJSON importedSession exampleDocument)) = templatesJSON importedSession
   \<and> map displayName (templatesArray importedSession) = [''five'', ''two'']
   \<and> map displayName (templatesArray (snd (importJSON importedSession exampleDocument)))
       = [''five'', ''two'', ''five'', ''two'']"
proof -
  have 1: "templatesJSON (snd (importJSON importedSession exampleDocument))
             = templatesJSON importedSession"
    by code_simp
  have 2: "map displayName (templatesArray importedSession) = [''five'', ''two'']"
    by code_simp
  have 3: "map displayName (templatesArray (snd (importJSON importedSession exampleDocument)))
       = [''five'', ''two'', ''five'', ''two'']"
    by code_simp
  from import_example 1 2 3 show ?thesis by simp
qed

section \<open>The sort identifier given by createTemplate\<close>

lemma fst_storeTemplates_fields [simp]:
  "templatesArray (storeTemplates m) = templatesArray m"
  "templatesJSON (storeTemplates m) = templatesJSON m"
  by (simp_all add: storeTemplates_def Let_def)

text \<open>
  Claim C2, as the code has it. Whenever \<open>createTemplate\<close> can read the templates of the
  document, it succeeds once the file is chunked, appends one Template instance, and the
  \<open>sortID\<close> of that instance is the number of entries the document holds at that moment.
  The identifiers are not kept apart from those of deleted templates.
\<close>

theorem createTemplate_sortID_is_entry_count:
  assumes "hasTemplates m"
  shows "fst (createTemplate m nm cs (Inr c)) = Inr ()
       \<and> templatesArray (snd (createTemplate m nm cs (Inr c)))
           = templatesArray m @ [last (templatesArray (snd (createTemplate m nm cs (Inr c))))]
       \<and> sortID (last (templatesArray (snd (createTemplate m nm cs (Inr c))))) = int (entryCount m)"
proof (cases "templatesJSON m")
  case None
  then show ?thesis
    by (simp add: createTemplate_def ensureJSON_def createJSON_def entryCount_def Let_def obj_keys_def)
next
  case (Some doc)
  with assms obtain ts where "templates doc = Some ts"
    by (auto simp: hasTemplates_def)
  with Some show ?thesis
    by (simp add: createTemplate_def ensureJSON_def entryCount_def Let_def)
qed

lemma hasTemplates_createTemplate:
  "hasTemplates m \<Longrightarrow> hasTemplates (snd (createTemplate m nm cs chunker))"
  by (auto simp: createTemplate_def ensureJSON_def createJSON_def hasTemplates_def Let_def
        storeTemplates_def split: option.splits sum.splits)

lemma hasTemplates_deleteTemplate:
  "hasTemplates m \<Longrightarrow> hasTemplates (snd (deleteTemplate m k))"
  by (auto simp: deleteTemplate_def ensureJSON_def createJSON_def hasTemplates_def Let_def
        storeTemplates_def split: option.splits)

lemma createTemplate_persists:
  "fst (createTemplate m nm cs chunker) = Inr () \<Longrightarrow>
   gmStorage (snd (createTemplate m nm cs chunker))
     = templatesJSON (snd (createTemplate m nm cs chunker))"
  by (auto simp: createTemplate_def storeTemplates_def Let_def split: option.splits sum.splits)

lemma deleteTemplate_persists:
  "fst (deleteTemplate m k) = Inr () \<Longrightarrow>
   gmStorage (snd (deleteTemplate m k)) = templatesJSON (snd (deleteTemplate m k))"
  by (auto simp: deleteTemplate_def storeTemplates_def Let_def split: option.splits)

lemma hasTemplates_TemplateManager:
  "hasTemplates (TemplateManager nm ver lsw c2d dec)"
  by (simp add: hasTemplates_def TemplateManager_def)

theorem createTemplate_sortID_is_entry_count_witness:
  "hasTemplates afterCreate
   \<and> entryCount afterCreate = 1
   \<and> fst (createTemplate afterCreate ''second'' [Num 1, Num 2, Num 3, Num 4] (Inr exampleChunks)) = Inr ()
   \<and> sortID (last (templatesArray (snd (createTemplate afterCreate ''second''
               [Num 1, Num 2, Num 3, Num 4] (Inr exampleChunks))))) = 1"
proof -
  have h: "hasTemplates afterCreate"
    unfolding afterCreate_def freshSession_def
    by (intro hasTemplates_createTemplate hasTemplates_TemplateManager)
  have n: "entryCount afterCreate = 1"
    by code_simp
  from createTemplate_sortID_is_entry_count[OF h, of "''second''" "[Num 1, Num 2, Num 3, Num 4]" exampleChunks] h n
  show ?thesis by simp
qed

text \<open>
  Claim C2, the part that fails: a sort identifier is given again after a deletion.
  After the only template of a session is deleted the document is empty again, so the next
  template created is given the sort identifier 0 a second time.
\<close>

theorem sortID_reused_after_delete:
  "map sortID (templatesArray afterCreate) = [0]
   \<and> entryCount afterCreate = 1
   \<and> templatesArray afterDelete = []
   \<and> entryCount afterDelete = 0
   \<and> map sortID (templatesArray afterCreateAgain) = [0]
   \<and> map displayName (templatesArray afterCreateAgain) = [''second'']"
  by code_simp

section \<open>A tile no template matches\<close>

lemma nat_toString_0: "nat_toString 0 = ''0''"
  by (subst nat_toString.simps) (simp add: digit_char_def)

lemma matchingTileBlob_None:
  "matchingTiles t prefix = [] \<Longrightarrow> matchingTileBlob t prefix = None"
  by (simp add: matchingTileBlob_def)

lemma templatesToDraw_empty:
  assumes "\<forall>t \<in> set arr. enabled t \<longrightarrow> matchingTiles t prefix = []"
  shows "templatesToDraw arr prefix = []"
  using assms
  by (induction arr) (auto simp: templatesToDraw_def List.map_filter_simps matchingTileBlob_None)

text \<open>
  Claim C4, as the code has it. With drawing switched on, a tile that decodes and no enabled
  template with a fragment on the tile, \<open>drawTemplateOnTile\<close> returns a PNG whose image
  is the input tile scaled to \<open>tileSize * drawMult\<close> cells in each direction, with nothing
  drawn over it, and reports \<open>Displaying 0 templates.\<close> The size of the result is that of
  the canvas, not that of the input.
\<close>

theorem draw_without_matches:
  assumes "templatesShouldBeDrawn m"
      and "blob_image tileBlob = Some tile"
      and "0 < tileSize m * drawMult m"
      and "\<forall>t \<in> set (templatesArray m). enabled t \<longrightarrow> matchingTiles t (tilePrefix tc) = []"
  shows "drawTemplateOnTile m tileBlob tc =
           (Inr \<lparr> blob_type = ''image/png'',
                  blob_image = Some (drawImageScaled
                    (OffscreenCanvas (tileSize m * drawMult m) (tileSize m * drawMult m)) tile
                    (tileSize m * drawMult m) (tileSize m * drawMult m)) \<rparr>,
            m\<lparr>templatesArray := sort_key sortID (templatesArray m),
              statusLog := statusLog m @ [Plain ''Displaying 0 templates.'']\<rparr>)
       \<and> width (drawImageScaled
                    (OffscreenCanvas (tileSize m * drawMult m) (tileSize m * drawMult m)) tile
                    (tileSize m * drawMult m) (tileSize m * drawMult m)) = tileSize m * drawMult m
       \<and> height (drawImageScaled
                    (OffscreenCanvas (tileSize m * drawMult m) (tileSize m * drawMult m)) tile
                    (tileSize m * drawMult m) (tileSize m * drawMult m)) = tileSize m * drawMult m"
proof -
  have e: "templatesToDraw (sort_key sortID (templatesArray m)) (tilePrefix tc) = []"
    using assms(4) by (intro templatesToDraw_empty) simp
  show ?thesis
    using assms(1-3) e
    by (simp add: drawTemplateOnTile_def Let_def nat_toString_0 drawImageScaled_def OffscreenCanvas_def)
qed

theorem draw_without_matches_witness:
  "templatesShouldBeDrawn importedSession
   \<and> blob_image exampleTile = Some \<lparr> width = 1000, height = 1000, pixel = (\<lambda>x y. (10, 20, 30, 255)) \<rparr>
   \<and> 0 < tileSize importedSession * drawMult importedSession
   \<and> map (\<lambda>t. matchingTiles t (tilePrefix (7, 7))) (templatesArray importedSession) = [[], []]
   \<and> fst (drawTemplateOnTile importedSession exampleTile (7, 7)) =
           Inr \<lparr> blob_type = ''image/png'',
                  blob_image = Some (drawImageScaled
                    (OffscreenCanvas 3000 3000)
                    \<lparr> width = 1000, height = 1000, pixel = (\<lambda>x y. (10, 20, 30, 255)) \<rparr> 3000 3000) \<rparr>
   \<and> statusLog (snd (drawTemplateOnTile importedSession exampleTile (7, 7))) = [Plain ''Displaying 0 templates.'']"
proof -
  have h1: "templatesShouldBeDrawn importedSession"
    by (simp add: importedSession_def freshSession_def TemplateManager_def)
  have h2: "blob_image exampleTile = Some \<lparr> width = 1000, height = 1000, pixel = (\<lambda>x y. (10, 20, 30, 255)) \<rparr>"
    by (simp add: exampleTile_def)
  have sz: "tileSize importedSession * drawMult importedSession = 3000"
    by (simp add: importedSession_def freshSession_def TemplateManager_def)
  have h3: "0 < tileSize importedSession * drawMult importedSession"
    by (simp add: sz)
  have h4: "\<forall>t \<in> set (templatesArray importedSession). enabled t \<longrightarrow> matchingTiles t (tilePrefix (7, 7)) = []"
    by code_simp
  have l: "statusLog importedSession = []"
    by (simp add: importedSession_def freshSession_def TemplateManager_def)
  have h5: "map (\<lambda>t. matchingTiles t (tilePrefix (7, 7))) (templatesArray importedSession) = [[], []]"
    by code_simp
  from draw_without_matches[OF h1 h2 h3 h4] h1 h2 h3 h5 sz l show ?thesis
    by simp
qed

text \<open>
  Claim C4, the part that fails: the result has not the size of the input.
  A live tile of 1000 by 1000 cells comes back as an image of 3000 by 3000 cells from a
  manager without templates.
\<close>

theorem draw_changes_dimensions:
  "map_option width (blob_image exampleTile) = Some 1000
   \<and> map_option width (drawnImage freshSession exampleTile (0, 0)) = Some 3000
   \<and> map_option height (drawnImage freshSession exampleTile (0, 0)) = Some 3000
   \<and> templatesArray freshSession = []"
  by code_simp

section \<open>Drawing order\<close>







lemma size_drawFragment [simp]:
  "width (drawFragment mult c f) = width c" "height (drawFragment mult c f) = height c"
  by (simp_all add: drawFragment_def drawImage_def split: jsnum.splits)

lemma size_foldl_drawFragment [simp]:
  "width (foldl (drawFragment mult) c fs) = width c"
  "height (foldl (drawFragment mult) c fs) = height c"
  by (induction fs arbitrary: c) simp_all












section \<open>Pixel counts of imported templates\<close>

lemma computePixelCount_fails_nonempty:
  "computePixelCountFromTiles ctx tiles = Inl e \<Longrightarrow> tiles \<noteq> []"
  by (auto simp: computePixelCountFromTiles_def)

lemma resolvePixelCount_trusted:
  "carriesPixelCount v \<Longrightarrow>
   \<exists>n. json_pixelCount v = PCNumber n \<and> resolvePixelCount ctx tiles v = (n, v, [])"
  by (auto simp: carriesPixelCount_def resolvePixelCount_def split: pcval.splits)

lemma resolvePixelCount_reconstructed:
  assumes "\<not> carriesPixelCount v"
      and "computePixelCountFromTiles ctx (map (\<lambda>kv. (fst kv, Some (snd kv))) tiles) = Inr c"
  shows "resolvePixelCount ctx tiles v
           = (Num (int c), v\<lparr>json_pixelCount := PCNumber (Num (int c))\<rparr>, [])"
  using assms
  by (auto simp: carriesPixelCount_def resolvePixelCount_def split: pcval.splits)

lemma resolvePixelCount_heuristic:
  assumes "\<not> carriesPixelCount v"
      and "computePixelCountFromTiles ctx (map (\<lambda>kv. (fst kv, Some (snd kv))) tiles) = Inl e"
  shows "fst (resolvePixelCount ctx tiles v) = Num (int (length tiles * 500))
       \<and> fst (snd (resolvePixelCount ctx tiles v))
           = v\<lparr>json_pixelCount := PCNumber (Num (int (length tiles * 500)))\<rparr>"
proof -
  from assms(2) have "tiles \<noteq> []"
    using computePixelCount_fails_nonempty by fastforce
  with assms show ?thesis
    by (auto simp: carriesPixelCount_def resolvePixelCount_def obj_keys_def Let_def
          split: pcval.splits)
qed

lemma parseTemplate_decodable:
  assumes "decodeTiles (decodeTile m) (json_tiles v) = Some tiles"
  shows "\<exists>t. parseTemplate m n k v
             = Inr (t, fst (snd (resolvePixelCount (canvas2d m) tiles v)),
                       snd (snd (resolvePixelCount (canvas2d m) tiles v)))
           \<and> chunked t = tiles
           \<and> pixelCount t = fst (resolvePixelCount (canvas2d m) tiles v)"
  using assms by (simp add: parseTemplate_def Let_def split: prod.splits)

lemma parseTemplates_step:
  assumes "parseTemplate m (length arr) (fst kv) (snd kv) = Inr (t, v', ws0)"
  shows "fst (snd (parseTemplates m arr (kv # ts))) = fst (snd (parseTemplates m (arr @ [t]) ts))"
    and "fst (snd (snd (parseTemplates m arr (kv # ts))))
           = (fst kv, v') # fst (snd (snd (parseTemplates m (arr @ [t]) ts)))"
  using assms by (simp_all add: case_prod_beta)

lemma parseTemplates_extends:
  "\<exists>news. fst (snd (parseTemplates m arr ts)) = arr @ news"
proof (induction ts arbitrary: arr)
  case Nil
  then show ?case by simp
next
  case (Cons kv ts)
  show ?case
  proof (cases "parseTemplate m (length arr) (fst kv) (snd kv)")
    case (Inl e)
    then show ?thesis by simp
  next
    case (Inr r)
    obtain t v' ws0 where r: "r = (t, v', ws0)" by (cases r) auto
    from Cons.IH[of "arr @ [t]"] obtain news where
      "fst (snd (parseTemplates m (arr @ [t]) ts)) = (arr @ [t]) @ news" by blast
    then show ?thesis
      using parseTemplates_step(1)[OF Inr[unfolded r]] by simp
  qed
qed

lemma parseTemplates_keys:
  "map fst (fst (snd (snd (parseTemplates m arr ts)))) = map fst ts"
proof (induction ts arbitrary: arr)
  case Nil
  then show ?case by simp
next
  case (Cons kv ts)
  show ?case
  proof (cases "parseTemplate m (length arr) (fst kv) (snd kv)")
    case (Inl e)
    then show ?thesis by simp
  next
    case (Inr r)
    obtain t v' ws0 where r: "r = (t, v', ws0)" by (cases r) auto
    show ?thesis
      using parseTemplates_step(2)[OF Inr[unfolded r]] Cons.IH[of "arr @ [t]"] by simp
  qed
qed

text \<open>
  The entries up to and including the one at \<open>i\<close> decode: then the loop reaches that entry,
  whatever happens to the entries after it.
\<close>

lemma parseTemplates_prefix:
  assumes "i < length ts"
      and "\<forall>j \<le> i. decodeTiles (decodeTile m) (json_tiles (snd (ts ! j))) \<noteq> None"
      and "decodeTiles (decodeTile m) (json_tiles (snd (ts ! i))) = Some tiles"
  shows "length arr + i < length (fst (snd (parseTemplates m arr ts)))
       \<and> chunked (fst (snd (parseTemplates m arr ts)) ! (length arr + i)) = tiles
       \<and> pixelCount (fst (snd (parseTemplates m arr ts)) ! (length arr + i))
           = fst (resolvePixelCount (canvas2d m) tiles (snd (ts ! i)))
       \<and> fst (snd (snd (parseTemplates m arr ts))) ! i
           = (fst (ts ! i), fst (snd (resolvePixelCount (canvas2d m) tiles (snd (ts ! i)))))"
  using assms
proof (induction ts arbitrary: arr i)
  case Nil
  then show ?case by simp
next
  case (Cons kv ts)
  from Cons.prems(2) have "decodeTiles (decodeTile m) (json_tiles (snd ((kv # ts) ! 0))) \<noteq> None"
    by blast
  then obtain tiles0 where
    tiles0: "decodeTiles (decodeTile m) (json_tiles (snd kv)) = Some tiles0"
    by auto
  from parseTemplate_decodable[OF tiles0, of "length arr" "fst kv"] obtain t where
    t: "parseTemplate m (length arr) (fst kv) (snd kv)
          = Inr (t, fst (snd (resolvePixelCount (canvas2d m) tiles0 (snd kv))),
                    snd (snd (resolvePixelCount (canvas2d m) tiles0 (snd kv))))"
    and ct: "chunked t = tiles0"
    and pt: "pixelCount t = fst (resolvePixelCount (canvas2d m) tiles0 (snd kv))"
    by blast
  note step = parseTemplates_step[OF t, of ts]
  show ?case
  proof (cases i)
    case 0
    with Cons.prems(3) tiles0 have same: "tiles = tiles0" by simp
    from parseTemplates_extends[of m "arr @ [t]" ts] obtain news where
      "fst (snd (parseTemplates m (arr @ [t]) ts)) = (arr @ [t]) @ news" by blast
    then show ?thesis
      using 0 step ct pt same by (simp add: nth_append)
  next
    case (Suc j)
    have j: "j < length ts" using Cons.prems(1) Suc by simp
    have dec: "\<forall>j' \<le> j. decodeTiles (decodeTile m) (json_tiles (snd (ts ! j'))) \<noteq> None"
    proof (intro allI impI)
      fix j' assume "j' \<le> j"
      then have "Suc j' \<le> i" using Suc by simp
      with Cons.prems(2) have "decodeTiles (decodeTile m) (json_tiles (snd ((kv # ts) ! Suc j'))) \<noteq> None"
        by blast
      then show "decodeTiles (decodeTile m) (json_tiles (snd (ts ! j'))) \<noteq> None" by simp
    qed
    have tl: "decodeTiles (decodeTile m) (json_tiles (snd (ts ! j))) = Some tiles"
      using Cons.prems(3) Suc by simp
    from Cons.IH[OF j dec tl, of "arr @ [t]"] show ?thesis
      using Suc step by simp
  qed
qed

lemma obj_get_obj_set:
  "obj_get (obj_set d k v) k' = (if k' = k then Some v else obj_get d k')"
  by (induction d) auto

lemma obj_get_mergeTemplates:
  "obj_get (mergeTemplates current imported) k
     = (case obj_get current k of
          Some e \<Rightarrow> Some e
        | None \<Rightarrow> obj_get imported k)"
  unfolding mergeTemplates_def
proof (induction imported arbitrary: current)
  case Nil
  then show ?case by (simp split: option.splits)
next
  case (Cons kv imported)
  show ?case
    by (cases kv) (auto simp: Cons.IH obj_get_obj_set split: option.splits)
qed

lemma obj_get_nth:
  "distinct (map fst ts) \<Longrightarrow> i < length ts \<Longrightarrow> ts ! i = (k, v) \<Longrightarrow> obj_get ts k = Some v"
proof (induction ts arbitrary: i)
  case Nil
  then show ?case by simp
next
  case (Cons kv ts)
  show ?case
  proof (cases i)
    case 0
    with Cons.prems show ?thesis by simp
  next
    case (Suc j)
    with Cons.prems have j: "j < length ts" "ts ! j = (k, v)" by simp_all
    then have "k \<in> fst ` set ts" by (metis fst_conv image_eqI nth_mem)
    with Cons.prems have "fst kv \<noteq> k" by auto
    with Cons.IH[OF _ j] Cons.prems show ?thesis by (cases kv) simp
  qed
qed

text \<open>
  Where the import adopts the key. Take an accepted document and an entry of it that the
  loop reaches, under a key the document of the manager does not hold yet. The import does
  not fail. If the entry carries a non-negative numeric \<open>pixelCount\<close>, the Template
  instance gets that value and the entry is stored as it is. Otherwise the reconstructor
  runs: its result is the count of the instance and is written into the entry that the
  document of the manager now holds; and if it throws, both get the number of fragments
  times 500.
\<close>

lemma import_resolves_pixelCount:
  fixes m :: session
  assumes acc: "whoami json = Some w" "w \<noteq> []" "w \<in> set (acceptedWhoami m)"
      and has: "hasTemplates m"
      and ts: "templates json = Some ts" "distinct (map fst ts)"
      and i: "i < length ts" "ts ! i = (k, v)"
      and dec: "\<forall>j \<le> i. decodeTiles (decodeTile m) (json_tiles (snd (ts ! j))) \<noteq> None"
      and absent: "obj_get (documentEntries m) k = None"
      and tiles: "decodeTiles (decodeTile m) (json_tiles v) = Some tiles"
  defines "m' \<equiv> snd (importJSON m json)"
  defines "t \<equiv> templatesArray m' ! (length (templatesArray m) + i)"
  defines "v' \<equiv> obj_get (documentEntries m') k"
  defines "recon \<equiv> computePixelCountFromTiles (canvas2d m) (map (\<lambda>kv. (fst kv, Some (snd kv))) tiles)"
  shows "fst (importJSON m json) = Inr ()
       \<and> length (templatesArray m) + i < length (templatesArray m')
       \<and> chunked t = tiles
       \<and> (carriesPixelCount v \<longrightarrow> json_pixelCount v = PCNumber (pixelCount t) \<and> v' = Some v)
       \<and> (\<not> carriesPixelCount v \<longrightarrow>
            (\<forall>c. recon = Inr c \<longrightarrow>
                   pixelCount t = Num (int c)
                 \<and> v' = Some (v\<lparr>json_pixelCount := PCNumber (Num (int c))\<rparr>))
          \<and> (\<forall>e. recon = Inl e \<longrightarrow>
                   pixelCount t = Num (int (length tiles * 500))
                 \<and> v' = Some (v\<lparr>json_pixelCount := PCNumber (Num (int (length tiles * 500)))\<rparr>)))"
proof -
  obtain e arr' ts' ws where
    P: "parseTemplates m (templatesArray m) ts = (e, arr', ts', ws)"
    by (cases "parseTemplates m (templatesArray m) ts") auto
  have tiles_i: "decodeTiles (decodeTile m) (json_tiles (snd (ts ! i))) = Some tiles"
    using i tiles by simp
  from parseTemplates_prefix[OF i(1) dec tiles_i, of "templatesArray m"]
  have len: "length (templatesArray m) + i < length arr'"
    and ct0: "chunked (arr' ! (length (templatesArray m) + i)) = tiles"
    and pt0: "pixelCount (arr' ! (length (templatesArray m) + i))
               = fst (resolvePixelCount (canvas2d m) tiles v)"
    and ent: "ts' ! i = (k, fst (snd (resolvePixelCount (canvas2d m) tiles v)))"
    using i by (simp_all add: P)
  have keys: "map fst ts' = map fst ts"
    using parseTemplates_keys[of m "templatesArray m" ts] by (simp add: P)
  have wb_k: "obj_get ts' k = Some (fst (snd (resolvePixelCount (canvas2d m) tiles v)))"
  proof (rule obj_get_nth[where i = i])
    show "distinct (map fst ts')" using ts(2) keys by simp
    show "i < length ts'" using i(1) keys by (metis length_map)
    show "ts' ! i = (k, fst (snd (resolvePixelCount (canvas2d m) tiles v)))" by (rule ent)
  qed
  have res: "fst (importJSON m json) = Inr ()
           \<and> templatesArray m' = arr'
           \<and> v' = Some (fst (snd (resolvePixelCount (canvas2d m) tiles v)))"
  proof (cases "templatesJSON m")
    case None
    then have "importJSON m json
               = (Inr (), m\<lparr>templatesJSON := Some (json\<lparr>templates := Some ts'\<rparr>),
                            templatesArray := arr',
                            consoleLog := consoleLog m @ ws @
                              (case e of None \<Rightarrow> []
                               | Some err \<Rightarrow> [''[BlueMarble] Failed to parse templates:''])\<rparr>)"
      using acc ts(1) by (subst importJSON_def) (simp add: parseBlueMarble_def Let_def P)
    then show ?thesis
      by (simp add: m'_def v'_def documentEntries_def wb_k)
  next
    case (Some doc)
    with has obtain dts where dts: "templates doc = Some dts"
      by (auto simp: hasTemplates_def)
    have "importJSON m json
               = (Inr (), m\<lparr>templatesJSON := Some (doc\<lparr>templates := Some (mergeTemplates dts ts')\<rparr>),
                            templatesArray := arr',
                            consoleLog := consoleLog m @ ws @
                              (case e of None \<Rightarrow> []
                               | Some err \<Rightarrow> [''[BlueMarble] Failed to parse templates:''])\<rparr>)"
      using acc ts(1) Some dts by (subst importJSON_def) (simp add: parseBlueMarble_def Let_def P)
    moreover have "obj_get dts k = None"
      using absent Some dts by (simp add: documentEntries_def)
    ultimately show ?thesis
      by (simp add: m'_def v'_def documentEntries_def obj_get_mergeTemplates wb_k)
  qed
  then have arr: "templatesArray m' = arr'"
    and v'_eq: "v' = Some (fst (snd (resolvePixelCount (canvas2d m) tiles v)))"
    by simp_all
  have ct: "chunked t = tiles"
    and pt: "pixelCount t = fst (resolvePixelCount (canvas2d m) tiles v)"
    using ct0 pt0 by (simp_all add: t_def arr)
  have trusted: "carriesPixelCount v \<longrightarrow> json_pixelCount v = PCNumber (pixelCount t) \<and> v' = Some v"
    using resolvePixelCount_trusted[of v "canvas2d m" tiles] by (auto simp: pt v'_eq)
  have reconstructed: "\<not> carriesPixelCount v \<longrightarrow>
            (\<forall>c. recon = Inr c \<longrightarrow>
                   pixelCount t = Num (int c)
                 \<and> v' = Some (v\<lparr>json_pixelCount := PCNumber (Num (int c))\<rparr>))"
    using resolvePixelCount_reconstructed[of v "canvas2d m" tiles]
    by (simp add: pt v'_eq recon_def)
  have heuristic: "\<not> carriesPixelCount v \<longrightarrow>
            (\<forall>e. recon = Inl e \<longrightarrow>
                   pixelCount t = Num (int (length tiles * 500))
                 \<and> v' = Some (v\<lparr>json_pixelCount := PCNumber (Num (int (length tiles * 500)))\<rparr>))"
    using resolvePixelCount_heuristic[of v "canvas2d m" tiles]
    by (simp add: pt v'_eq recon_def)
  have "length (templatesArray m) + i < length (templatesArray m')"
    using len by (simp add: arr)
  with res show ?thesis
    using ct trusted reconstructed heuristic by blast
qed

text \<open>
  The three resolutions on the example documents: a stored count is kept (see
  \<open>import_example\<close>), a missing one is reconstructed, and without a 2D context it is 500
  for one fragment.
\<close>

lemma import_resolves_pixelCount_example:
  "\<not> carriesPixelCount legacyEntry
   \<and> computePixelCountFromTiles (canvas2d freshSession) [(''0000,0000,0,0'', Some redBitmap)] = Inr 1
   \<and> computePixelCountFromTiles (canvas2d noCanvasSession) [(''0000,0000,0,0'', Some redBitmap)]
       = Inl TypeError
   \<and> fst (importJSON freshSession legacyDocument) = Inr ()
   \<and> pixelCount (templatesArray (snd (importJSON freshSession legacyDocument)) ! 0) = Num 1
   \<and> obj_get (documentEntries (snd (importJSON freshSession legacyDocument))) ''0 !''
       = Some (legacyEntry\<lparr>json_pixelCount := PCNumber (Num 1)\<rparr>)
   \<and> fst (importJSON noCanvasSession legacyDocument) = Inr ()
   \<and> pixelCount (templatesArray (snd (importJSON noCanvasSession legacyDocument)) ! 0) = Num 500
   \<and> obj_get (documentEntries (snd (importJSON noCanvasSession legacyDocument))) ''0 !''
       = Some (legacyEntry\<lparr>json_pixelCount := PCNumber (Num 500)\<rparr>)"
proof -
  let ?tiles = "[(''0000,0000,0,0'', redBitmap)]"
  have w: "whoami legacyDocument = Some ''BlueMarble''" "''BlueMarble'' \<noteq> []"
    by (simp_all add: legacyDocument_def)
  have ts: "templates legacyDocument = Some [(''0 !'', legacyEntry)]"
    "distinct (map fst [(''0 !'', legacyEntry)])"
    by (simp_all add: legacyDocument_def)
  have i: "0 < length [(''0 !'', legacyEntry)]" "[(''0 !'', legacyEntry)] ! 0 = (''0 !'', legacyEntry)"
    by simp_all
  have nc: "\<not> carriesPixelCount legacyEntry"
    by (simp add: carriesPixelCount_def legacyEntry_def)
  have fields: "templatesArray freshSession = []" "templatesArray noCanvasSession = []"
    "decodeTile freshSession = exampleDecode" "decodeTile noCanvasSession = exampleDecode"
    "canvas2d freshSession" "\<not> canvas2d noCanvasSession"
    by (simp_all add: freshSession_def noCanvasSession_def TemplateManager_def)
  have a1: "''BlueMarble'' \<in> set (acceptedWhoami freshSession)"
    and a2: "''BlueMarble'' \<in> set (acceptedWhoami noCanvasSession)"
    by (simp_all add: acceptedWhoami_def)
  have h1: "hasTemplates freshSession" and h2: "hasTemplates noCanvasSession"
    by (simp_all add: hasTemplates_def freshSession_def noCanvasSession_def TemplateManager_def)
  have ab1: "obj_get (documentEntries freshSession) ''0 !'' = None"
    and ab2: "obj_get (documentEntries noCanvasSession) ''0 !'' = None"
    by (simp_all add: documentEntries_def freshSession_def noCanvasSession_def TemplateManager_def)
  have d: "decodeTiles exampleDecode (json_tiles legacyEntry) = Some ?tiles"
    by (simp add: legacyEntry_def exampleDecode_def)
  have dec1: "\<forall>j \<le> 0. decodeTiles (decodeTile freshSession)
                (json_tiles (snd ([(''0 !'', legacyEntry)] ! j))) \<noteq> None"
    and dec2: "\<forall>j \<le> 0. decodeTiles (decodeTile noCanvasSession)
                (json_tiles (snd ([(''0 !'', legacyEntry)] ! j))) \<noteq> None"
    by (simp_all add: fields d)
  have t1: "decodeTiles (decodeTile freshSession) (json_tiles legacyEntry) = Some ?tiles"
    and t2: "decodeTiles (decodeTile noCanvasSession) (json_tiles legacyEntry) = Some ?tiles"
    by (simp_all add: fields d)
  have r1: "computePixelCountFromTiles True [(''0000,0000,0,0'', Some redBitmap)] = Inr 1"
    by code_simp
  have r2: "computePixelCountFromTiles False [(''0000,0000,0,0'', Some redBitmap)] = Inl TypeError"
    by code_simp
  note first = import_resolves_pixelCount[OF w a1 h1 ts i dec1 ab1 t1]
  note second = import_resolves_pixelCount[OF w a2 h2 ts i dec2 ab2 t2]
  from first second nc r1 r2 show ?thesis
    by (simp add: fields)
qed

text \<open>
  Claim C8 says that the count reconstructed for a template processed during import is
  written into the in-memory document, so that later saves carry it. Under a key the
  manager already holds this fails: the merge leaves the entry of the manager alone, the
  parse still processes the entry of the imported document, and the count goes to that
  entry only. Here the manager holds \<open>0 !\<close> without a count (the parse of the broken
  document stopped before it); the import of \<open>legacyDocument\<close> gives the new Template
  instance the count 1, and the entry of the manager stays without one.
\<close>

theorem import_writeback_lost_on_held_key:
  "fst (importJSON freshSession brokenDocument) = Inr ()
   \<and> templatesArray afterBrokenImport = []
   \<and> obj_get (documentEntries afterBrokenImport) ''0 !'' = Some legacyEntry
   \<and> json_pixelCount legacyEntry = PCAbsent
   \<and> fst (importJSON afterBrokenImport legacyDocument) = Inr ()
   \<and> map pixelCount (templatesArray afterLegacyImport) = [Num 1]
   \<and> obj_get (documentEntries afterLegacyImport) ''0 !'' = Some legacyEntry"
  by code_simp

section \<open>What the operations leave alone\<close>

lemma drawTemplateOnTile_frame:
  "templatesJSON (snd (drawTemplateOnTile m tileBlob tc)) = templatesJSON m
   \<and> templatesArray (snd (drawTemplateOnTile m tileBlob tc))
       = (if templatesShouldBeDrawn m then sort_key sortID (templatesArray m)
          else templatesArray m)"
  by (simp add: drawTemplateOnTile_def Let_def split: option.splits)

lemma updateTemplateCoordinates_rejects_malformed:
  assumes "newCoords = NotAnArray
         \<or> (\<exists>cs. newCoords = CoordArray cs
                \<and> (length cs \<noteq> 4 \<or> \<not> list_all (\<lambda>coord. \<not> isNaN coord \<and> isFinite coord) cs))"
  shows "\<exists>msg. updateTemplateCoordinates m templateKey newCoords = (Inl (Error msg), ensureJSON m)"
  using assms by (auto simp: updateTemplateCoordinates_def Let_def)

lemma updateTemplateCoordinates_accepts_finite:
  assumes "hasTemplates m" and "length cs = 4" and "list_all isFinite cs"
  shows "fst (updateTemplateCoordinates m templateKey (CoordArray cs))
           = Inr (''Template coordinates updated to: '' @ joinCoords cs)"
proof -
  have "list_all (\<lambda>coord. \<not> isNaN coord \<and> isFinite coord) cs"
    using assms(3) by (induction cs) (auto elim: isFinite.elims)
  with assms(1,2) show ?thesis
    by (auto simp: updateTemplateCoordinates_def ensureJSON_def createJSON_def hasTemplates_def
          Let_def split: option.splits)
qed

lemma mergeTemplates_present:
  "\<forall>kv \<in> set imported. obj_get current (fst kv) \<noteq> None \<Longrightarrow>
   mergeTemplates current imported = current"
  unfolding mergeTemplates_def by (induction imported) auto

end
